theory Spec2Isabelle
  imports Complex_Main
begin

section \<open>Python and NumPy primitives used by the sources\<close>

text \<open>
  Python floats are modelled as \<^typ>\<open>real\<close>: every arithmetic step is exact, so rounding
  of IEEE doubles is outside the model. Python integers are \<^typ>\<open>int\<close>.
\<close>

datatype py_exception = ZeroDivisionError

text \<open>\<^verbatim>\<open>int(x)\<close> on a float truncates toward zero.\<close>

definition py_int :: "real \<Rightarrow> int" where
  "py_int x = (if 0 \<le> x then \<lfloor>x\<rfloor> else \<lceil>x\<rceil>)"

text \<open>\<^verbatim>\<open>np.clip(x, lo, hi)\<close> is \<^verbatim>\<open>minimum(maximum(x, lo), hi)\<close>.\<close>

definition np_clip :: "real \<Rightarrow> real \<Rightarrow> real \<Rightarrow> real" where
  "np_clip x lo hi = min (max x lo) hi"

text \<open>
  \<^verbatim>\<open>np.interp(x, (x0, x1), (f0, f1))\<close> with two sample points. NumPy returns the right
  value \<open>f1\<close> above \<open>x1\<close>, the left value \<open>f0\<close> below \<open>x0\<close>; otherwise it searches the
  interval index \<open>j\<close> linearly (\<open>j = 1\<close> as soon as \<open>x \<ge> x1\<close>), returns \<open>f1\<close> for the last
  index, \<open>f0\<close> when \<open>x\<close> is exactly \<open>x0\<close>, and interpolates with the slope otherwise.
  With \<open>x0 = x1\<close> the search ends at the last index, so the result is \<open>f1\<close>.
\<close>

definition np_interp :: "real \<Rightarrow> real \<times> real \<Rightarrow> real \<times> real \<Rightarrow> real" where
  "np_interp x xp fp =
     (let x0 = fst xp; x1 = snd xp; f0 = fst fp; f1 = snd fp
      in if x > x1 then f1
         else if x < x0 then f0
         else if x \<ge> x1 then f1
         else if x = x0 then f0
         else (f1 - f0) / (x1 - x0) * (x - x0) + f0)"

text \<open>
  \<^verbatim>\<open>collections.deque(maxlen=n).append(x)\<close>: the element goes to the right end and, when
  the deque is over its capacity, elements leave from the left end.
\<close>

definition deque_append :: "nat \<Rightarrow> 'a list \<Rightarrow> 'a \<Rightarrow> 'a list" where
  "deque_append maxlen xs x = (let ys = xs @ [x] in drop (length ys - maxlen) ys)"

text \<open>
  \<^verbatim>\<open>round(x, n)\<close> and the format \<^verbatim>\<open>f"{x:.nf}"\<close> both give the decimal with \<open>n\<close> places
  nearest to \<open>x\<close>, an exact tie going to the even last digit.
\<close>

definition round_half_even :: "real \<Rightarrow> int" where
  "round_half_even x =
     (let n = \<lfloor>x\<rfloor>; r = x - of_int n
      in if r < 1 / 2 then n else if r > 1 / 2 then n + 1 else if even n then n else n + 1)"

definition py_round :: "real \<Rightarrow> nat \<Rightarrow> real" where
  "py_round x ndigits = of_int (round_half_even (x * 10 ^ ndigits)) / 10 ^ ndigits"

text \<open>A pinch distance is a float that may be \<^verbatim>\<open>float('inf')\<close>.\<close>

datatype distance = Finite real | Infinity

section \<open>hand\_tracking\_module.py\<close>

text \<open>
  The detector's result for one frame is \<open>None\<close> (no hand) or the list of normalised
  landmark positions of the first hand. Indexing past the list raises \<^verbatim>\<open>IndexError\<close>,
  which \<^verbatim>\<open>get_finger_tip_coordinates\<close> turns into \<^verbatim>\<open>(None, None)\<close>.
\<close>

type_synonym landmarks = "(real \<times> real) list"

definition INDEX_FINGER_TIP :: nat where
  "INDEX_FINGER_TIP = 8"

definition THUMB_TIP :: nat where
  "THUMB_TIP = 4"

definition get_finger_tip_coordinates ::
  "landmarks option \<Rightarrow> int \<Rightarrow> int \<Rightarrow> nat \<Rightarrow> (int \<times> int) option" where
  "get_finger_tip_coordinates hand_landmarks frame_width frame_height finger_tip_id =
     (case hand_landmarks of
        None \<Rightarrow> None
      | Some lms \<Rightarrow>
          if finger_tip_id < length lms
          then Some (py_int (fst (lms ! finger_tip_id) * of_int frame_width),
                     py_int (snd (lms ! finger_tip_id) * of_int frame_height))
          else None)"

definition get_pinch_info ::
  "landmarks option \<Rightarrow> int \<Rightarrow> int \<Rightarrow> (int \<times> int) option \<times> (int \<times> int) option \<times> distance" where
  "get_pinch_info hand_landmarks frame_width frame_height =
     (case (get_finger_tip_coordinates hand_landmarks frame_width frame_height INDEX_FINGER_TIP,
            get_finger_tip_coordinates hand_landmarks frame_width frame_height THUMB_TIP) of
        (Some (ix, iy), Some (tx, ty)) \<Rightarrow>
          (Some (ix, iy), Some (tx, ty),
           Finite (sqrt ((of_int (ix - tx))\<^sup>2 + (of_int (iy - ty))\<^sup>2)))
      | _ \<Rightarrow> (None, None, Infinity))"

section \<open>main\_app.py: the control loop\<close>

datatype app_status =
    StatusIdle | StatusRunning | StatusClick | StatusDoubleClick
  | StatusNoHandDetected | StatusError | StatusOther

text \<open>Calls made on the mouse controller, in order.\<close>

datatype mouse_call = Click nat | MoveTo int int

text \<open>
  The fields of \<^verbatim>\<open>HandMouseControllerApp\<close> that the per-frame logic reads or writes: the
  settings loaded from the configuration, the screen size held by the mouse controller,
  the capacity of the two history deques, and the mutable tracking state.
\<close>

record app =
  smoothing_factor :: real
  raw_target_buffer_size :: nat
  mouse_move_threshold :: real
  active_region_x_min_percent :: real
  active_region_x_max_percent :: real
  active_region_y_min_percent :: real
  active_region_y_max_percent :: real
  pinch_threshold_distance_config :: real
  double_click_window_sec :: real
  sensitivity_scale_var :: real
  screen_width :: int
  screen_height :: int
  prev_cursor_x :: real
  prev_cursor_y :: real
  last_mouse_move_x :: int
  last_mouse_move_y :: int
  raw_target_history_x :: "real list"
  raw_target_history_y :: "real list"
  is_pinching_prev_frame :: bool
  last_click_event_time :: real
  status_var :: app_status
  is_control_active :: bool
  mouse_calls :: "mouse_call list"

text \<open>
  Lines 349--361 of \<^verbatim>\<open>process_video_frame\<close>: the effective active region
  \<open>(x_min, x_max, y_min, y_max)\<close> after sensitivity scaling, clipping to \<open>[0, 1]\<close> and the
  \<open>0.01\<close> gap forced on a degenerate side. Dividing by a zero sensitivity raises.
\<close>

definition effective_active_region :: "app \<Rightarrow> py_exception + (real \<times> real \<times> real \<times> real)" where
  "effective_active_region a =
     (let current_sensitivity = sensitivity_scale_var a;
          center_x_cam_percent = (active_region_x_min_percent a + active_region_x_max_percent a) / 2;
          center_y_cam_percent = (active_region_y_min_percent a + active_region_y_max_percent a) / 2;
          base_active_width_percent = active_region_x_max_percent a - active_region_x_min_percent a;
          base_active_height_percent = active_region_y_max_percent a - active_region_y_min_percent a
      in if current_sensitivity = 0 then Inl ZeroDivisionError
         else
           (let effective_active_width_percent = base_active_width_percent / current_sensitivity;
                effective_active_height_percent = base_active_height_percent / current_sensitivity;
                current_active_x_min_p = np_clip (center_x_cam_percent - effective_active_width_percent / 2) 0 1;
                current_active_x_max_p = np_clip (center_x_cam_percent + effective_active_width_percent / 2) 0 1;
                current_active_y_min_p = np_clip (center_y_cam_percent - effective_active_height_percent / 2) 0 1;
                current_active_y_max_p = np_clip (center_y_cam_percent + effective_active_height_percent / 2) 0 1;
                x_max_p = (if current_active_x_min_p \<ge> current_active_x_max_p
                           then current_active_x_min_p + 0.01 else current_active_x_max_p);
                y_max_p = (if current_active_y_min_p \<ge> current_active_y_max_p
                           then current_active_y_min_p + 0.01 else current_active_y_max_p)
            in Inr (current_active_x_min_p, x_max_p, current_active_y_min_p, y_max_p)))"

text \<open>Lines 362--365: the pixel bounds \<open>(ax1, ay1, ax2, ay2)\<close> of the effective region.\<close>

definition pixel_bounds :: "real \<times> real \<times> real \<times> real \<Rightarrow> int \<Rightarrow> int \<Rightarrow> int \<times> int \<times> int \<times> int" where
  "pixel_bounds region frame_width frame_height =
     (case region of (x_min_p, x_max_p, y_min_p, y_max_p) \<Rightarrow>
        (py_int (x_min_p * of_int frame_width), py_int (y_min_p * of_int frame_height),
         py_int (x_max_p * of_int frame_width), py_int (y_max_p * of_int frame_height)))"

text \<open>Lines 377--380: clamp the fingertip into the pixel bounds and interpolate to the screen.\<close>

definition raw_target_screen :: "app \<Rightarrow> int \<times> int \<times> int \<times> int \<Rightarrow> int \<times> int \<Rightarrow> real \<times> real" where
  "raw_target_screen a bounds tip =
     (case bounds of (ax1, ay1, ax2, ay2) \<Rightarrow>
        (let clamped_ix_cam = np_clip (of_int (fst tip)) (of_int ax1) (of_int ax2);
             clamped_iy_cam = np_clip (of_int (snd tip)) (of_int ay1) (of_int ay2)
         in (np_interp clamped_ix_cam (of_int ax1, of_int ax2) (0, of_int (screen_width a)),
             np_interp clamped_iy_cam (of_int ay1, of_int ay2) (0, of_int (screen_height a)))))"

text \<open>
  Lines 381--389: push the raw target into both histories, average what they hold (the raw
  target itself when a history is empty) and blend the average into the previous cursor.
\<close>

definition smooth_cursor :: "app \<Rightarrow> real \<times> real \<Rightarrow> app" where
  "smooth_cursor a raw =
     (let hx = deque_append (raw_target_buffer_size a) (raw_target_history_x a) (fst raw);
          hy = deque_append (raw_target_buffer_size a) (raw_target_history_y a) (snd raw);
          avg_target_x = (if hx \<noteq> [] then sum_list hx / of_nat (length hx) else fst raw);
          avg_target_y = (if hx \<noteq> [] then sum_list hy / of_nat (length hy) else snd raw);
          current_cursor_x = prev_cursor_x a * (1 - smoothing_factor a) + avg_target_x * smoothing_factor a;
          current_cursor_y = prev_cursor_y a * (1 - smoothing_factor a) + avg_target_y * smoothing_factor a
      in a\<lparr>raw_target_history_x := hx, raw_target_history_y := hy,
            prev_cursor_x := current_cursor_x, prev_cursor_y := current_cursor_y\<rparr>)"

text \<open>
  Lines 391--407: the pinch test and the click state machine. \<open>ctime\<close> is the reading of
  \<^verbatim>\<open>time.perf_counter()\<close> taken on a rising edge. The assignment of \<open>0\<close> in the double-click
  branch is followed by the assignment of \<open>ctime\<close> that closes the rising-edge block.
  The same block, with the same two assignments, is in \<^verbatim>\<open>process_video_frame\<close> of
  \<^verbatim>\<open>main.py\<close> (lines 344--354), as is the branch for a frame without a hand.
\<close>

definition pinch_click :: "app \<Rightarrow> landmarks option \<Rightarrow> int \<Rightarrow> int \<Rightarrow> real \<Rightarrow> app" where
  "pinch_click a hand_landmarks frame_width frame_height ctime =
     (let pinch_distance_logic = snd (snd (get_pinch_info hand_landmarks frame_width frame_height));
          is_pinching_this_frame =
            (case pinch_distance_logic of
               Finite d \<Rightarrow> d < pinch_threshold_distance_config a
             | Infinity \<Rightarrow> False);
          a1 = (if is_pinching_this_frame \<and> \<not> is_pinching_prev_frame a
                then (let a2 = (if ctime - last_click_event_time a < double_click_window_sec a
                                then a\<lparr>mouse_calls := mouse_calls a @ [Click 2],
                                       status_var := StatusDoubleClick,
                                       last_click_event_time := 0\<rparr>
                                else a\<lparr>mouse_calls := mouse_calls a @ [Click 1],
                                       status_var := StatusClick\<rparr>)
                      in a2\<lparr>last_click_event_time := ctime\<rparr>)
                else a);
          a3 = a1\<lparr>is_pinching_prev_frame := is_pinching_this_frame\<rparr>
      in if \<not> is_pinching_this_frame \<and> status_var a3 \<noteq> StatusError
         then (if is_control_active a3 then a3\<lparr>status_var := StatusRunning\<rparr> else a3)
         else a3)"

text \<open>Lines 415--421: move the mouse when the truncated cursor left the dead zone.\<close>

definition mouse_control :: "app \<Rightarrow> app" where
  "mouse_control a =
     (let final_x = py_int (prev_cursor_x a); final_y = py_int (prev_cursor_y a)
      in if of_int \<bar>final_x - last_mouse_move_x a\<bar> > mouse_move_threshold a
            \<or> of_int \<bar>final_y - last_mouse_move_y a\<bar> > mouse_move_threshold a
         then a\<lparr>mouse_calls := mouse_calls a @ [MoveTo final_x final_y],
                last_mouse_move_x := final_x, last_mouse_move_y := final_y\<rparr>
         else a)"

text \<open>
  The control block of \<^verbatim>\<open>process_video_frame\<close> (lines 346--423) for one frame that was
  read: frame size, the detector's landmarks, and the clock.
\<close>

definition process_video_frame ::
  "app \<Rightarrow> int \<Rightarrow> int \<Rightarrow> landmarks option \<Rightarrow> real \<Rightarrow> py_exception + app" where
  "process_video_frame a frame_width frame_height hand_landmarks ctime =
     (if \<not> is_control_active a then Inr a
      else
        (case effective_active_region a of
           Inl e \<Rightarrow> Inl e
         | Inr region \<Rightarrow>
             (let bounds = pixel_bounds region frame_width frame_height
              in case hand_landmarks of
                   Some lms \<Rightarrow>
                     (case get_finger_tip_coordinates hand_landmarks frame_width frame_height
                             INDEX_FINGER_TIP of
                        Some tip \<Rightarrow>
                          Inr (mouse_control
                                 (pinch_click (smooth_cursor a (raw_target_screen a bounds tip))
                                    hand_landmarks frame_width frame_height ctime))
                      | None \<Rightarrow>
                          Inr (pinch_click a hand_landmarks frame_width frame_height ctime))
                 | None \<Rightarrow>
                     Inr (a\<lparr>status_var := StatusNoHandDetected,
                            is_pinching_prev_frame := False,
                            raw_target_history_x := [], raw_target_history_y := []\<rparr>))))"

text \<open>One frame as the loop sees it, and a run over a list of frames.\<close>

record frame_input =
  frame_width_in :: int
  frame_height_in :: int
  landmarks_in :: "landmarks option"
  clock_in :: real

fun run_frames :: "app \<Rightarrow> frame_input list \<Rightarrow> py_exception + app" where
  "run_frames a [] = Inr a"
| "run_frames a (f # fs) =
     (case process_video_frame a (frame_width_in f) (frame_height_in f) (landmarks_in f) (clock_in f) of
        Inl e \<Rightarrow> Inl e
      | Inr a' \<Rightarrow> run_frames a' fs)"

section \<open>calibration\_window.py\<close>

datatype calib_state =
    CALIB_STATE_IDLE | CALIB_STATE_WAITING_TOP_LEFT | CALIB_STATE_WAITING_BOTTOM_RIGHT
  | CALIB_STATE_WAITING_OPEN_HAND | CALIB_STATE_WAITING_PINCH

text \<open>
  The tkinter string variables are modelled by what their text says. The two average
  variables and the new-threshold variable are also the only store of those numbers:
  they are written with two decimals and parsed back by the code that needs them.
\<close>

datatype ar_status =
    ArIdle | ArMoveToTopLeft | ArMoveToBottomRight | ArHandNotDetected
  | ArHoldTopLeft int | ArHoldBottomRight int | ArTopLeftCaptured | ArBottomRightCaptured

datatype pt_status =
    PtIdle | PtHoldHandOpen | PtHoldHandPinched | PtHandNotClear
  | PtHoldOpenHand int real | PtHoldPinch int real
  | PtOpenHandCaptured | PtOpenHandFailed | PtPinchCaptured | PtPinchFailed

datatype corner_var = CornerNotSet | CornerCapturing | CornerShown real real

datatype dist_var = DistNotSet | DistShown real

datatype threshold_var =
    ThresholdNotCalculated | ThresholdShown real
  | ThresholdErrorTooClose | ThresholdErrorCalculating

text \<open>Dialogs and calls on the collaborators, in order; lines written by \<^verbatim>\<open>print\<close>.\<close>

datatype effect =
    ShowErrorInvalidActiveRegion | ShowInfoSettingsApplied | ShowInfoNothingToApply
  | SaveConfig | LoadSettingsFromConfig | LoadCurrentConfigValues

datatype console_line =
    StartingCapture calib_state int | EnterPressed
  | CapturedCorner calib_state real real
  | CapturedOpenHandAvg real | CapturedPinchAvg real
  | CalculatedThreshold real | ExceptionCalculatingThreshold | CouldNotParseThreshold

record calibration_window =
  config :: "string \<rightharpoonup> real"
  settings_file :: "string \<rightharpoonup> real"
  target_fps :: int
  calibration_state :: calib_state
  temp_active_region_tl_norm :: "(real \<times> real) option"
  temp_active_region_br_norm :: "(real \<times> real) option"
  temp_open_hand_distances :: "real list"
  temp_pinch_distances :: "real list"
  capture_countdown :: int
  show_calibration_feed :: bool
  ar_status_var :: ar_status
  pt_status_var :: pt_status
  ar_tl_var :: corner_var
  ar_br_var :: corner_var
  pt_open_dist_var :: dist_var
  pt_pinch_dist_var :: dist_var
  pt_new_threshold_var :: threshold_var
  ar_br_button_enabled :: bool
  pt_pinch_button_enabled :: bool
  return_key_bound :: bool
  effects :: "effect list"
  console :: "console_line list"

definition ar_capture_duration_s :: int where
  "ar_capture_duration_s = 2"

definition pinch_capture_duration_s :: int where
  "pinch_capture_duration_s = 3"

definition start_capture_top_left :: "calibration_window \<Rightarrow> calibration_window" where
  "start_capture_top_left w =
     (let n = ar_capture_duration_s * target_fps w
      in w\<lparr>ar_status_var := ArMoveToTopLeft,
            calibration_state := CALIB_STATE_WAITING_TOP_LEFT,
            temp_active_region_tl_norm := None,
            ar_tl_var := CornerCapturing,
            ar_br_button_enabled := False,
            return_key_bound := True,
            show_calibration_feed := True,
            capture_countdown := n,
            console := console w @ [StartingCapture CALIB_STATE_WAITING_TOP_LEFT n]\<rparr>)"

definition start_capture_bottom_right :: "calibration_window \<Rightarrow> calibration_window" where
  "start_capture_bottom_right w =
     (let n = ar_capture_duration_s * target_fps w
      in w\<lparr>ar_status_var := ArMoveToBottomRight,
            calibration_state := CALIB_STATE_WAITING_BOTTOM_RIGHT,
            temp_active_region_br_norm := None,
            ar_br_var := CornerCapturing,
            return_key_bound := True,
            show_calibration_feed := True,
            capture_countdown := n,
            console := console w @ [StartingCapture CALIB_STATE_WAITING_BOTTOM_RIGHT n]\<rparr>)"

definition capture_ar_point_on_key :: "calibration_window \<Rightarrow> calibration_window" where
  "capture_ar_point_on_key w =
     (if calibration_state w = CALIB_STATE_WAITING_TOP_LEFT
         \<or> calibration_state w = CALIB_STATE_WAITING_BOTTOM_RIGHT
      then w\<lparr>capture_countdown := 1, console := console w @ [EnterPressed]\<rparr>
      else w)"

definition process_ar_capture ::
  "calibration_window \<Rightarrow> real option \<Rightarrow> real option \<Rightarrow> calibration_window" where
  "process_ar_capture w norm_x norm_y =
     (case (norm_x, norm_y) of
        (Some x, Some y) \<Rightarrow>
          if capture_countdown w > 0
          then
            (let c = capture_countdown w - 1;
                 countdown_sec = (if target_fps w > 0 then c div target_fps w + 1
                                  else ar_capture_duration_s);
                 w1 = w\<lparr>capture_countdown := c\<rparr>
             in if calibration_state w = CALIB_STATE_WAITING_TOP_LEFT
                then w1\<lparr>ar_status_var := ArHoldTopLeft countdown_sec\<rparr>
                else if calibration_state w = CALIB_STATE_WAITING_BOTTOM_RIGHT
                then w1\<lparr>ar_status_var := ArHoldBottomRight countdown_sec\<rparr>
                else w1)
          else if calibration_state w = CALIB_STATE_WAITING_TOP_LEFT
          then w\<lparr>temp_active_region_tl_norm := Some (x, y),
                 ar_tl_var := CornerShown (py_round x 3) (py_round y 3),
                 ar_status_var := ArTopLeftCaptured,
                 ar_br_button_enabled := True,
                 calibration_state := CALIB_STATE_IDLE,
                 return_key_bound := False,
                 console := console w @ [CapturedCorner CALIB_STATE_WAITING_TOP_LEFT x y]\<rparr>
          else if calibration_state w = CALIB_STATE_WAITING_BOTTOM_RIGHT
          then w\<lparr>temp_active_region_br_norm := Some (x, y),
                 ar_br_var := CornerShown (py_round x 3) (py_round y 3),
                 ar_status_var := ArBottomRightCaptured,
                 calibration_state := CALIB_STATE_IDLE,
                 return_key_bound := False,
                 console := console w @ [CapturedCorner CALIB_STATE_WAITING_BOTTOM_RIGHT x y]\<rparr>
          else w
      | _ \<Rightarrow> w\<lparr>ar_status_var := ArHandNotDetected\<rparr>)"

definition start_capture_open_hand :: "calibration_window \<Rightarrow> calibration_window" where
  "start_capture_open_hand w =
     (let n = pinch_capture_duration_s * target_fps w
      in w\<lparr>pt_status_var := PtHoldHandOpen,
            calibration_state := CALIB_STATE_WAITING_OPEN_HAND,
            temp_open_hand_distances := [],
            capture_countdown := n,
            pt_pinch_button_enabled := False,
            show_calibration_feed := True,
            console := console w @ [StartingCapture CALIB_STATE_WAITING_OPEN_HAND n]\<rparr>)"

definition start_capture_pinch :: "calibration_window \<Rightarrow> calibration_window" where
  "start_capture_pinch w =
     (let n = pinch_capture_duration_s * target_fps w
      in w\<lparr>pt_status_var := PtHoldHandPinched,
            calibration_state := CALIB_STATE_WAITING_PINCH,
            temp_pinch_distances := [],
            capture_countdown := n,
            show_calibration_feed := True,
            console := console w @ [StartingCapture CALIB_STATE_WAITING_PINCH n]\<rparr>)"

text \<open>
  The two averages are read back from their display variables. A variable that still says
  \<^verbatim>\<open>Not set\<close> passes the substring test and fails in \<^verbatim>\<open>float\<close>, which the handler
  reports as an error of calculation.
\<close>

definition calculate_and_display_new_pinch_threshold ::
  "calibration_window \<Rightarrow> calibration_window" where
  "calculate_and_display_new_pinch_threshold w =
     (case (pt_open_dist_var w, pt_pinch_dist_var w) of
        (DistShown avg_open, DistShown avg_pinch) \<Rightarrow>
          if avg_open > avg_pinch + 1
          then (let new_threshold = max 5 (avg_pinch + (avg_open - avg_pinch) * 0.35)
                in w\<lparr>pt_new_threshold_var := ThresholdShown (py_round new_threshold 2),
                      console := console w @ [CalculatedThreshold new_threshold]\<rparr>)
          else w\<lparr>pt_new_threshold_var := ThresholdErrorTooClose\<rparr>
      | _ \<Rightarrow> w\<lparr>pt_new_threshold_var := ThresholdErrorCalculating,
                console := console w @ [ExceptionCalculatingThreshold]\<rparr>)"

definition process_pinch_capture ::
  "calibration_window \<Rightarrow> distance option \<Rightarrow> calibration_window" where
  "process_pinch_capture w pinch_distance_pixels =
     (case pinch_distance_pixels of
        Some (Finite d) \<Rightarrow>
          if capture_countdown w > 0
          then
            (let c = capture_countdown w - 1;
                 countdown_sec = (if target_fps w > 0 then c div target_fps w + 1
                                  else pinch_capture_duration_s);
                 w1 = w\<lparr>capture_countdown := c\<rparr>
             in if calibration_state w = CALIB_STATE_WAITING_OPEN_HAND
                then w1\<lparr>pt_status_var := PtHoldOpenHand countdown_sec (py_round d 1),
                        temp_open_hand_distances := temp_open_hand_distances w @ [d]\<rparr>
                else if calibration_state w = CALIB_STATE_WAITING_PINCH
                then w1\<lparr>pt_status_var := PtHoldPinch countdown_sec (py_round d 1),
                        temp_pinch_distances := temp_pinch_distances w @ [d]\<rparr>
                else w1)
          else if calibration_state w = CALIB_STATE_WAITING_OPEN_HAND
          then
            (if temp_open_hand_distances w \<noteq> []
             then (let avg_open_dist = sum_list (temp_open_hand_distances w)
                                         / of_nat (length (temp_open_hand_distances w))
                   in w\<lparr>pt_open_dist_var := DistShown (py_round avg_open_dist 2),
                         pt_status_var := PtOpenHandCaptured,
                         pt_pinch_button_enabled := True,
                         console := console w @ [CapturedOpenHandAvg avg_open_dist],
                         calibration_state := CALIB_STATE_IDLE\<rparr>)
             else w\<lparr>pt_status_var := PtOpenHandFailed, calibration_state := CALIB_STATE_IDLE\<rparr>)
          else if calibration_state w = CALIB_STATE_WAITING_PINCH
          then
            (if temp_pinch_distances w \<noteq> []
             then (let avg_pinch_dist = sum_list (temp_pinch_distances w)
                                          / of_nat (length (temp_pinch_distances w))
                   in (calculate_and_display_new_pinch_threshold
                         (w\<lparr>pt_pinch_dist_var := DistShown (py_round avg_pinch_dist 2),
                            pt_status_var := PtPinchCaptured,
                            console := console w @ [CapturedPinchAvg avg_pinch_dist]\<rparr>))
                      \<lparr>calibration_state := CALIB_STATE_IDLE\<rparr>)
             else w\<lparr>pt_status_var := PtPinchFailed, calibration_state := CALIB_STATE_IDLE\<rparr>)
          else w
      | _ \<Rightarrow> w\<lparr>pt_status_var := PtHandNotClear\<rparr>)"

text \<open>
  A captured corner is a non-empty tuple, hence true in the guard. The new-threshold
  variable is parsed back: \<^verbatim>\<open>Not calculated\<close> passes the substring test and fails in
  \<^verbatim>\<open>float\<close> (reported on the console); an error text is skipped.
\<close>

definition apply_and_save_settings :: "calibration_window \<Rightarrow> calibration_window" where
  "apply_and_save_settings w =
     (let (w1, applied1) =
            (case (temp_active_region_tl_norm w, temp_active_region_br_norm w) of
               (Some tl_norm, Some br_norm) \<Rightarrow>
                 (let x_min = min (fst tl_norm) (fst br_norm); x_max = max (fst tl_norm) (fst br_norm);
                      y_min = min (snd tl_norm) (snd br_norm); y_max = max (snd tl_norm) (snd br_norm)
                  in if x_max > x_min + 0.01 \<and> y_max > y_min + 0.01
                     then (w\<lparr>config := (config w)
                                (''active_region_x_min_percent'' \<mapsto> py_round x_min 3,
                                 ''active_region_x_max_percent'' \<mapsto> py_round x_max 3,
                                 ''active_region_y_min_percent'' \<mapsto> py_round y_min 3,
                                 ''active_region_y_max_percent'' \<mapsto> py_round y_max 3)\<rparr>, True)
                     else (w\<lparr>effects := effects w @ [ShowErrorInvalidActiveRegion]\<rparr>, False))
             | _ \<Rightarrow> (w, False));
          (w2, applied2) =
            (case pt_new_threshold_var w1 of
               ThresholdShown new_threshold_val \<Rightarrow>
                 (w1\<lparr>config := (config w1)
                         (''pinch_threshold_distance'' \<mapsto> py_round new_threshold_val 2)\<rparr>, True)
             | ThresholdNotCalculated \<Rightarrow>
                 (w1\<lparr>console := console w1 @ [CouldNotParseThreshold]\<rparr>, applied1)
             | _ \<Rightarrow> (w1, applied1))
      in if applied2
         then w2\<lparr>settings_file := config w2,
                 effects := effects w2 @ [SaveConfig, LoadSettingsFromConfig,
                                          LoadCurrentConfigValues, ShowInfoSettingsApplied]\<rparr>
         else w2\<lparr>effects := effects w2 @ [ShowInfoNothingToApply]\<rparr>)"

text \<open>
  \<^verbatim>\<open>update_calibration_step\<close>: the part that feeds the capture functions from the frame's
  landmarks. The fingertip is normalised by the frame size, a division that raises on a
  zero size.
\<close>

definition update_calibration_step ::
  "calibration_window \<Rightarrow> int \<Rightarrow> int \<Rightarrow> landmarks option \<Rightarrow> py_exception + calibration_window" where
  "update_calibration_step w frame_width frame_height hand_landmarks =
     (if \<not> show_calibration_feed w then Inr w
      else if calibration_state w = CALIB_STATE_WAITING_TOP_LEFT
              \<or> calibration_state w = CALIB_STATE_WAITING_BOTTOM_RIGHT
      then (case get_finger_tip_coordinates hand_landmarks frame_width frame_height INDEX_FINGER_TIP of
              Some (pix_x, pix_y) \<Rightarrow>
                if frame_width = 0 \<or> frame_height = 0 then Inl ZeroDivisionError
                else Inr (process_ar_capture w
                            (Some (of_int pix_x / of_int frame_width))
                            (Some (of_int pix_y / of_int frame_height)))
            | None \<Rightarrow> Inr (process_ar_capture w None None))
      else if calibration_state w = CALIB_STATE_WAITING_OPEN_HAND
              \<or> calibration_state w = CALIB_STATE_WAITING_PINCH
      then (let pinch_dist_pixels = snd (snd (get_pinch_info hand_landmarks frame_width frame_height))
            in Inr (process_pinch_capture w
                      (if pinch_dist_pixels \<noteq> Infinity then Some pinch_dist_pixels else None)))
      else Inr w)"

section \<open>video\_streamer.py\<close>

text \<open>
  The capture device is outside the repository. Its behaviour is a parameter: a record of
  the operations of \<^verbatim>\<open>cv2.VideoCapture\<close> on a device state \<open>'d\<close>, with frames of type \<open>'f\<close>.
\<close>

record ('d, 'f) video_capture =
  isOpened :: "'d \<Rightarrow> bool"
  get_frame_width :: "'d \<Rightarrow> real"
  get_frame_height :: "'d \<Rightarrow> real"
  set_frame_width :: "'d \<Rightarrow> int \<Rightarrow> 'd"
  set_frame_height :: "'d \<Rightarrow> int \<Rightarrow> 'd"
  read_frame :: "'d \<Rightarrow> (bool \<times> 'f option) \<times> 'd"

record ('d, 'f) webcam_video_stream =
  requested_width :: int
  requested_height :: int
  stream :: "'d option"
  actual_width :: int
  actual_height :: int
  grabbed :: bool
  stopped :: bool
  frame_queue :: "'f list"

text \<open>Lines 36--37: the resolution the device reports when it has just been opened.\<close>

definition initial_default_resolution :: "('d, 'f) video_capture \<Rightarrow> 'd \<Rightarrow> int \<times> int" where
  "initial_default_resolution cap dev =
     (py_int (get_frame_width cap dev), py_int (get_frame_height cap dev))"

text \<open>Lines 41--53: the device after the attempt to set the requested resolution.\<close>

definition attempt_resolution ::
  "('d, 'f) video_capture \<Rightarrow> 'd \<Rightarrow> ('d, 'f) webcam_video_stream \<Rightarrow> 'd" where
  "attempt_resolution cap dev s =
     (let initial_default = initial_default_resolution cap dev;
          valid = (requested_width s > 0 \<and> requested_height s > 0);
          final_width_to_set = (if valid then requested_width s else fst initial_default);
          final_height_to_set = (if valid then requested_height s else snd initial_default)
      in if final_width_to_set > 0 \<and> final_height_to_set > 0
         then set_frame_height cap (set_frame_width cap dev final_width_to_set) final_height_to_set
         else dev)"

text \<open>Lines 63--68: the negotiated resolution is more than 50% away from a valid request.\<close>

definition significantly_different_from_request ::
  "('d, 'f) webcam_video_stream \<Rightarrow> int \<Rightarrow> int \<Rightarrow> bool" where
  "significantly_different_from_request s current_actual_width current_actual_height =
     ((requested_width s > 0 \<and> requested_height s > 0)
      \<and> (of_int \<bar>current_actual_width - requested_width s\<bar> > of_int (requested_width s) * (0.5 :: real)
         \<or> of_int \<bar>current_actual_height - requested_height s\<bar> > of_int (requested_height s) * (0.5 :: real)))"

text \<open>Lines 94--106: grab the first frame and restart the queue with it.\<close>

definition grab_initial_frame ::
  "('d, 'f) video_capture \<Rightarrow> 'd \<Rightarrow> ('d, 'f) webcam_video_stream
     \<Rightarrow> bool \<times> ('d, 'f) webcam_video_stream" where
  "grab_initial_frame cap dev s =
     (case read_frame cap dev of
        ((g, initial_frame), dev') \<Rightarrow>
          (case initial_frame of
             Some fr \<Rightarrow>
               if g then (True, s\<lparr>grabbed := g, stream := Some dev', frame_queue := [fr]\<rparr>)
               else (False, s\<lparr>grabbed := g, stream := None\<rparr>)
           | None \<Rightarrow> (False, s\<lparr>grabbed := g, stream := None\<rparr>)))"

text \<open>
  \<^verbatim>\<open>_initialize_stream\<close>, on the device state \<open>dev\<close> that \<^verbatim>\<open>cv2.VideoCapture(src)\<close>
  returned. The result is the method's boolean and the object afterwards.
\<close>

definition initialize_stream ::
  "('d, 'f) video_capture \<Rightarrow> 'd \<Rightarrow> ('d, 'f) webcam_video_stream
     \<Rightarrow> bool \<times> ('d, 'f) webcam_video_stream" where
  "initialize_stream cap dev s =
     (if \<not> isOpened cap dev then (False, s\<lparr>stream := None\<rparr>)
      else
        (let initial_default = initial_default_resolution cap dev;
             initial_default_width = fst initial_default;
             initial_default_height = snd initial_default;
             dev1 = attempt_resolution cap dev s;
             current_actual_width = py_int (get_frame_width cap dev1);
             current_actual_height = py_int (get_frame_height cap dev1)
         in if current_actual_width = 0 \<or> current_actual_height = 0
               \<or> significantly_different_from_request s current_actual_width current_actual_height
            then
              (if initial_default_width > 0 \<and> initial_default_height > 0
               then
                 (let dev2 = set_frame_height cap
                               (set_frame_width cap dev1 initial_default_width)
                               initial_default_height
                  in grab_initial_frame cap dev2
                       (s\<lparr>actual_width := py_int (get_frame_width cap dev2),
                          actual_height := py_int (get_frame_height cap dev2)\<rparr>))
               else
                 (let s1 = s\<lparr>actual_width := current_actual_width,
                             actual_height := current_actual_height\<rparr>
                  in if actual_width s1 = 0 \<or> actual_height s1 = 0
                     then (False, s1\<lparr>stream := None\<rparr>)
                     else grab_initial_frame cap dev1 s1))
            else grab_initial_frame cap dev1
                   (s\<lparr>actual_width := current_actual_width,
                      actual_height := current_actual_height\<rparr>)))"

section \<open>Concrete configurations\<close>

text \<open>
  The application as \<^verbatim>\<open>DEFAULT_CONFIG\<close> and \<^verbatim>\<open>__init__\<close> set it up, on a 1920x1080 screen
  with the cursor at its centre, control started.
\<close>

definition default_app :: app where
  "default_app =
     \<lparr>smoothing_factor = 1 / 5, raw_target_buffer_size = 5, mouse_move_threshold = 1,
      active_region_x_min_percent = 15 / 100, active_region_x_max_percent = 85 / 100,
      active_region_y_min_percent = 15 / 100, active_region_y_max_percent = 85 / 100,
      pinch_threshold_distance_config = 25, double_click_window_sec = 4 / 10,
      sensitivity_scale_var = 3 / 2, screen_width = 1920, screen_height = 1080,
      prev_cursor_x = 960, prev_cursor_y = 540,
      last_mouse_move_x = 960, last_mouse_move_y = 540,
      raw_target_history_x = [], raw_target_history_y = [],
      is_pinching_prev_frame = False, last_click_event_time = 0,
      status_var = StatusRunning, is_control_active = True, mouse_calls = []\<rparr>"

text \<open>
  Two hands of 21 landmarks in the middle of the frame: one with thumb and index tips
  together, one with the thumb tip a quarter of the frame width away.
\<close>

definition pinched_hand :: landmarks where
  "pinched_hand = replicate 21 (1 / 2, 1 / 2)"

definition open_hand :: landmarks where
  "open_hand = (replicate 21 (1 / 2, 1 / 2))[4 := (3 / 4, 1 / 2)]"

definition frame_at :: "landmarks option \<Rightarrow> real \<Rightarrow> frame_input" where
  "frame_at h t = \<lparr>frame_width_in = 640, frame_height_in = 480, landmarks_in = h, clock_in = t\<rparr>"

text \<open>Three pinches, 0.25 s apart, with the hand opened in between; the clock starts at 10 s.\<close>

definition rapid_pinches :: "frame_input list" where
  "rapid_pinches =
     [frame_at (Some pinched_hand) 10, frame_at (Some open_hand) (81 / 8),
      frame_at (Some pinched_hand) (41 / 4), frame_at (Some open_hand) (83 / 8),
      frame_at (Some pinched_hand) (21 / 2)]"

definition clicks_of :: "app \<Rightarrow> mouse_call list" where
  "clicks_of a = filter (\<lambda>c. case c of Click n \<Rightarrow> True | MoveTo x y \<Rightarrow> False) (mouse_calls a)"

text \<open>
  The calibration keys of \<^verbatim>\<open>DEFAULT_CONFIG\<close>, and the calibration window as \<^verbatim>\<open>__init__\<close>
  leaves it, opened from an application running at 60 frames per second.
\<close>

definition default_config :: "string \<rightharpoonup> real" where
  "default_config =
     [''active_region_x_min_percent'' \<mapsto> 15 / 100, ''active_region_x_max_percent'' \<mapsto> 85 / 100,
      ''active_region_y_min_percent'' \<mapsto> 15 / 100, ''active_region_y_max_percent'' \<mapsto> 85 / 100,
      ''pinch_threshold_distance'' \<mapsto> 25]"

definition new_calibration_window :: calibration_window where
  "new_calibration_window =
     \<lparr>config = default_config, settings_file = default_config, target_fps = 60,
      calibration_state = CALIB_STATE_IDLE,
      temp_active_region_tl_norm = None, temp_active_region_br_norm = None,
      temp_open_hand_distances = [], temp_pinch_distances = [],
      capture_countdown = 0, show_calibration_feed = False,
      ar_status_var = ArIdle, pt_status_var = PtIdle,
      ar_tl_var = CornerNotSet, ar_br_var = CornerNotSet,
      pt_open_dist_var = DistNotSet, pt_pinch_dist_var = DistNotSet,
      pt_new_threshold_var = ThresholdNotCalculated,
      ar_br_button_enabled = False, pt_pinch_button_enabled = False,
      return_key_bound = False, effects = [], console = []\<rparr>"

definition active_region_keys :: "string set" where
  "active_region_keys =
     {''active_region_x_min_percent'', ''active_region_x_max_percent'',
      ''active_region_y_min_percent'', ''active_region_y_max_percent''}"

text \<open>A window whose two average variables show the given numbers.\<close>

definition averages_shown :: "real \<Rightarrow> real \<Rightarrow> calibration_window" where
  "averages_shown open_avg pinch_avg =
     new_calibration_window\<lparr>pt_open_dist_var := DistShown open_avg,
                            pt_pinch_dist_var := DistShown pinch_avg\<rparr>"

text \<open>A window in which both corners were captured.\<close>

definition corners_captured :: "real \<times> real \<Rightarrow> real \<times> real \<Rightarrow> calibration_window" where
  "corners_captured tl_norm br_norm =
     new_calibration_window\<lparr>temp_active_region_tl_norm := Some tl_norm,
                            temp_active_region_br_norm := Some br_norm\<rparr>"

text \<open>
  The open-hand capture started at the given frame rate, followed by one tick for each of
  the given pinch distances.
\<close>

definition hold_open_hand :: "int \<Rightarrow> real list \<Rightarrow> calibration_window" where
  "hold_open_hand fps ds =
     foldl process_pinch_capture
       (start_capture_open_hand (new_calibration_window\<lparr>target_fps := fps\<rparr>))
       (map (\<lambda>d. Some (Finite d)) ds)"

text \<open>
  A camera that is open, reports the resolution it was opened with, ignores every set and
  delivers frames; and a stream object as \<^verbatim>\<open>WebcamVideoStream.__init__\<close> leaves it.
\<close>

definition refusing_camera :: "(int \<times> int, nat) video_capture" where
  "refusing_camera =
     \<lparr>isOpened = (\<lambda>dev. True),
      get_frame_width = (\<lambda>dev. of_int (fst dev)),
      get_frame_height = (\<lambda>dev. of_int (snd dev)),
      set_frame_width = (\<lambda>dev v. dev),
      set_frame_height = (\<lambda>dev v. dev),
      read_frame = (\<lambda>dev. ((True, Some 0), dev))\<rparr>"

definition new_stream :: "int \<Rightarrow> int \<Rightarrow> (int \<times> int, nat) webcam_video_stream" where
  "new_stream width height =
     \<lparr>requested_width = width, requested_height = height, stream = None,
      actual_width = 0, actual_height = 0, grabbed = False, stopped = True, frame_queue = []\<rparr>"

text \<open>An active region two hundredths wide and high, at sensitivity 1.\<close>

definition narrow_region_app :: app where
  "narrow_region_app =
     default_app\<lparr>active_region_x_min_percent := 53 / 100, active_region_x_max_percent := 55 / 100,
                 active_region_y_min_percent := 53 / 100, active_region_y_max_percent := 55 / 100,
                 sensitivity_scale_var := 1\<rparr>"

text \<open>
  The smoothing step run \<open>n\<close> times on one and the same raw target: the filter driven by a
  constant target.
\<close>

fun hold_target :: "app \<Rightarrow> real \<times> real \<Rightarrow> nat \<Rightarrow> app" where
  "hold_target a raw 0 = a"
| "hold_target a raw (Suc n) = smooth_cursor (hold_target a raw n) raw"

text \<open>
  The settings that a frame only reads, and the tracking state of the smoothing filter, as
  tuples.
\<close>

definition settings_of ::
  "app \<Rightarrow> (real \<times> nat \<times> real) \<times> (real \<times> real \<times> real \<times> real) \<times> (real \<times> real \<times> real) \<times> (int \<times> int \<times> bool)" where
  "settings_of a =
     ((smoothing_factor a, raw_target_buffer_size a, mouse_move_threshold a),
      (active_region_x_min_percent a, active_region_x_max_percent a,
       active_region_y_min_percent a, active_region_y_max_percent a),
      (pinch_threshold_distance_config a, double_click_window_sec a, sensitivity_scale_var a),
      (screen_width a, screen_height a, is_control_active a))"

definition tracking_of :: "app \<Rightarrow> real \<times> real \<times> real list \<times> real list" where
  "tracking_of a =
     (prev_cursor_x a, prev_cursor_y a, raw_target_history_x a, raw_target_history_y a)"

text \<open>A hand of 21 landmarks whose index tip is near the right edge of the frame.\<close>

definition reaching_hand :: landmarks where
  "reaching_hand = (replicate 21 (1 / 2, 1 / 2))[8 := (9 / 10, 1 / 2)]"

section \<open>Evaluation lemmas\<close>

lemmas frame_defs =
  process_video_frame_def effective_active_region_def pixel_bounds_def
  raw_target_screen_def smooth_cursor_def pinch_click_def mouse_control_def
  np_clip_def np_interp_def deque_append_def py_int_def Let_def frame_at_def

lemma pinch_info_pinched_hand:
  "get_pinch_info (Some pinched_hand) 640 480 = (Some (320, 240), Some (320, 240), Finite 0)"
  by (simp add: get_pinch_info_def get_finger_tip_coordinates_def pinched_hand_def
      INDEX_FINGER_TIP_def THUMB_TIP_def py_int_def)

lemma pinch_info_open_hand:
  "get_pinch_info (Some open_hand) 640 480 = (Some (320, 240), Some (480, 240), Finite 160)"
  by (simp add: get_pinch_info_def get_finger_tip_coordinates_def open_hand_def
      INDEX_FINGER_TIP_def THUMB_TIP_def py_int_def)

lemma index_tip_pinched_hand:
  "get_finger_tip_coordinates (Some pinched_hand) 640 480 INDEX_FINGER_TIP = Some (320, 240)"
  by (simp add: get_finger_tip_coordinates_def pinched_hand_def INDEX_FINGER_TIP_def py_int_def)

lemma index_tip_open_hand:
  "get_finger_tip_coordinates (Some open_hand) 640 480 INDEX_FINGER_TIP = Some (320, 240)"
  by (simp add: get_finger_tip_coordinates_def open_hand_def INDEX_FINGER_TIP_def py_int_def)

section \<open>The click state machine\<close>

text \<open>
  C1. The claim: a pinch rising edge within the double-click window emits one double-click
  and leaves the stored timestamp at 0, so that a third rapid pinch does not pair with the
  second into another double-click. On the code, the run of three pinches 0.25 s apart
  (window 0.4 s) gives a single click and then two double-clicks: after the second pinch
  the stored timestamp is the time of that pinch, 10.25, not 0, and the third pinch at
  10.5 is again inside the window.
\<close>

theorem third_rapid_pinch_double_clicks_again:
  "map_sum id (\<lambda>a. (clicks_of a, last_click_event_time a))
     (run_frames default_app (take 3 rapid_pinches)) = Inr ([Click 1, Click 2], 41 / 4)
   \<and> map_sum id clicks_of (run_frames default_app rapid_pinches)
       = Inr [Click 1, Click 2, Click 2]"
  by (simp add: rapid_pinches_def default_app_def clicks_of_def frame_defs
      pinch_info_pinched_hand pinch_info_open_hand index_tip_pinched_hand index_tip_open_hand)

section \<open>Rounding, evaluated\<close>

lemma py_round_41_2: "py_round (41 / 2) 2 = 41 / 2"
  by (simp add: py_round_def round_half_even_def Let_def)

lemma py_round_5_3: "py_round (5 / 3) 2 = 167 / 100"
  by (simp add: py_round_def round_half_even_def Let_def)

lemma py_round_79_640: "py_round (79 / 640) 3 = 123 / 1000"
  by (simp add: py_round_def round_half_even_def Let_def)

lemma py_round_tenths:
  "py_round (1 / 5) 3 = 1 / 5" "py_round (4 / 5) 3 = 4 / 5" "py_round (9 / 10) 3 = 9 / 10"
  by (simp_all add: py_round_def round_half_even_def Let_def)

section \<open>Deriving the pinch threshold\<close>

text \<open>
  C2. For every pair of averages shown in the two average variables: when the open average
  exceeds the pinch average by more than 1, the threshold computed (and printed) is
  \<open>max 5 (pinch + (open - pinch) * 0.35)\<close>, and the new-threshold variable shows it with
  two decimals; otherwise the variable shows the validation error and no threshold is
  computed. For the averages 40 and 10 the threshold is 20.5; for 11 and 10 the error is
  shown.
\<close>

theorem derived_pinch_threshold:
  assumes "pt_open_dist_var w = DistShown open_avg"
    and "pt_pinch_dist_var w = DistShown pinch_avg"
  shows "(if open_avg > pinch_avg + 1
          then console (calculate_and_display_new_pinch_threshold w)
                 = console w @ [CalculatedThreshold (max 5 (pinch_avg + (open_avg - pinch_avg) * 0.35))]
               \<and> pt_new_threshold_var (calculate_and_display_new_pinch_threshold w)
                 = ThresholdShown (py_round (max 5 (pinch_avg + (open_avg - pinch_avg) * 0.35)) 2)
          else console (calculate_and_display_new_pinch_threshold w) = console w
               \<and> pt_new_threshold_var (calculate_and_display_new_pinch_threshold w)
                 = ThresholdErrorTooClose)"
  using assms by (simp add: calculate_and_display_new_pinch_threshold_def Let_def)

theorem derived_pinch_threshold_witness:
  "console (calculate_and_display_new_pinch_threshold (averages_shown 40 10))
     = [CalculatedThreshold (41 / 2)]
   \<and> pt_new_threshold_var (calculate_and_display_new_pinch_threshold (averages_shown 40 10))
     = ThresholdShown (41 / 2)
   \<and> console (calculate_and_display_new_pinch_threshold (averages_shown 11 10)) = []
   \<and> pt_new_threshold_var (calculate_and_display_new_pinch_threshold (averages_shown 11 10))
     = ThresholdErrorTooClose"
  using derived_pinch_threshold [of "averages_shown 40 10" 40 10]
    derived_pinch_threshold [of "averages_shown 11 10" 11 10]
  by (simp add: averages_shown_def new_calibration_window_def py_round_41_2)

section \<open>Applying the calibration\<close>

text \<open>
  C3, as claimed: apply commits the sorted corner coordinates themselves. It does not:
  with the top-left corner at pixel 79 of 640 (0.1234375) the committed \<open>x_min\<close> is 0.123.
\<close>

theorem apply_commits_unrounded_corners_counterexample:
  "config (apply_and_save_settings (corners_captured (79 / 640, 1 / 5) (4 / 5, 9 / 10)))
      ''active_region_x_min_percent'' = Some (123 / 1000)
   \<and> config (apply_and_save_settings (corners_captured (79 / 640, 1 / 5) (4 / 5, 9 / 10)))
      ''active_region_x_min_percent'' \<noteq> Some (min (79 / 640) (4 / 5))"
  by (simp add: apply_and_save_settings_def corners_captured_def new_calibration_window_def
      Let_def py_round_79_640)

text \<open>
  C3, amended: for every pair of captured corners, apply sorts the coordinates into
  \<open>(x_min, x_max, y_min, y_max)\<close>; if \<open>x_max > x_min + 0.01\<close> and \<open>y_max > y_min + 0.01\<close> it
  commits the four values rounded to three decimals, and otherwise it leaves the four
  active-region keys as they were and shows the error dialog.
\<close>

theorem apply_commits_rounded_corners:
  assumes "temp_active_region_tl_norm w = Some tl_norm"
    and "temp_active_region_br_norm w = Some br_norm"
  shows "(if max (fst tl_norm) (fst br_norm) > min (fst tl_norm) (fst br_norm) + 0.01
             \<and> max (snd tl_norm) (snd br_norm) > min (snd tl_norm) (snd br_norm) + 0.01
          then config (apply_and_save_settings w) ''active_region_x_min_percent''
                 = Some (py_round (min (fst tl_norm) (fst br_norm)) 3)
             \<and> config (apply_and_save_settings w) ''active_region_x_max_percent''
                 = Some (py_round (max (fst tl_norm) (fst br_norm)) 3)
             \<and> config (apply_and_save_settings w) ''active_region_y_min_percent''
                 = Some (py_round (min (snd tl_norm) (snd br_norm)) 3)
             \<and> config (apply_and_save_settings w) ''active_region_y_max_percent''
                 = Some (py_round (max (snd tl_norm) (snd br_norm)) 3)
             \<and> take (Suc (length (effects w))) (effects (apply_and_save_settings w))
                 = effects w @ [SaveConfig]
          else (\<forall>k \<in> active_region_keys. config (apply_and_save_settings w) k = config w k)
             \<and> take (Suc (length (effects w))) (effects (apply_and_save_settings w))
                 = effects w @ [ShowErrorInvalidActiveRegion])"
  using assms
  by (auto simp add: apply_and_save_settings_def Let_def active_region_keys_def
      split: threshold_var.splits)

theorem apply_commits_rounded_corners_witness:
  "config (apply_and_save_settings (corners_captured (1 / 5, 1 / 5) (4 / 5, 9 / 10)))
      ''active_region_x_min_percent'' = Some (1 / 5)
   \<and> config (apply_and_save_settings (corners_captured (1 / 5, 1 / 5) (4 / 5, 9 / 10)))
      ''active_region_x_max_percent'' = Some (4 / 5)
   \<and> config (apply_and_save_settings (corners_captured (1 / 5, 1 / 5) (4 / 5, 9 / 10)))
      ''active_region_y_min_percent'' = Some (1 / 5)
   \<and> config (apply_and_save_settings (corners_captured (1 / 5, 1 / 5) (4 / 5, 9 / 10)))
      ''active_region_y_max_percent'' = Some (9 / 10)
   \<and> config (apply_and_save_settings (corners_captured (1 / 2, 1 / 2) (101 / 200, 101 / 200)))
      ''active_region_x_min_percent'' = Some (15 / 100)
   \<and> config (apply_and_save_settings (corners_captured (1 / 2, 1 / 2) (101 / 200, 101 / 200)))
      ''active_region_y_max_percent'' = Some (85 / 100)
   \<and> take 1 (effects (apply_and_save_settings (corners_captured (1 / 2, 1 / 2) (101 / 200, 101 / 200))))
      = [ShowErrorInvalidActiveRegion]"
  using apply_commits_rounded_corners
      [of "corners_captured (1 / 5, 1 / 5) (4 / 5, 9 / 10)" "(1 / 5, 1 / 5)" "(4 / 5, 9 / 10)"]
    apply_commits_rounded_corners
      [of "corners_captured (1 / 2, 1 / 2) (101 / 200, 101 / 200)" "(1 / 2, 1 / 2)"
          "(101 / 200, 101 / 200)"]
  by (simp add: corners_captured_def new_calibration_window_def default_config_def
      active_region_keys_def py_round_tenths)

text \<open>
  C10. Apply is not atomic across the two calibrations. With both corners captured: a
  degenerate rectangle leaves the four active-region keys unchanged while a threshold shown
  in the new-threshold variable is still committed and saved, after the error dialog; and
  a valid rectangle is committed and saved when that variable shows no threshold, the pinch
  threshold key staying as it was.
\<close>

theorem apply_is_not_atomic:
  assumes "temp_active_region_tl_norm w = Some tl_norm"
    and "temp_active_region_br_norm w = Some br_norm"
  shows "(\<not> (max (fst tl_norm) (fst br_norm) > min (fst tl_norm) (fst br_norm) + 0.01
            \<and> max (snd tl_norm) (snd br_norm) > min (snd tl_norm) (snd br_norm) + 0.01)
          \<and> pt_new_threshold_var w = ThresholdShown v
          \<longrightarrow> (\<forall>k \<in> active_region_keys. config (apply_and_save_settings w) k = config w k)
              \<and> config (apply_and_save_settings w) ''pinch_threshold_distance'' = Some (py_round v 2)
              \<and> settings_file (apply_and_save_settings w) = config (apply_and_save_settings w)
              \<and> effects (apply_and_save_settings w)
                 = effects w @ [ShowErrorInvalidActiveRegion, SaveConfig, LoadSettingsFromConfig,
                                LoadCurrentConfigValues, ShowInfoSettingsApplied])
       \<and> (max (fst tl_norm) (fst br_norm) > min (fst tl_norm) (fst br_norm) + 0.01
            \<and> max (snd tl_norm) (snd br_norm) > min (snd tl_norm) (snd br_norm) + 0.01
          \<and> (\<forall>u. pt_new_threshold_var w \<noteq> ThresholdShown u)
          \<longrightarrow> config (apply_and_save_settings w) ''active_region_x_min_percent''
                = Some (py_round (min (fst tl_norm) (fst br_norm)) 3)
              \<and> config (apply_and_save_settings w) ''active_region_x_max_percent''
                = Some (py_round (max (fst tl_norm) (fst br_norm)) 3)
              \<and> config (apply_and_save_settings w) ''active_region_y_min_percent''
                = Some (py_round (min (snd tl_norm) (snd br_norm)) 3)
              \<and> config (apply_and_save_settings w) ''active_region_y_max_percent''
                = Some (py_round (max (snd tl_norm) (snd br_norm)) 3)
              \<and> config (apply_and_save_settings w) ''pinch_threshold_distance''
                = config w ''pinch_threshold_distance''
              \<and> settings_file (apply_and_save_settings w) = config (apply_and_save_settings w)
              \<and> effects (apply_and_save_settings w)
                 = effects w @ [SaveConfig, LoadSettingsFromConfig,
                                LoadCurrentConfigValues, ShowInfoSettingsApplied])"
  using assms
  by (auto simp add: apply_and_save_settings_def Let_def active_region_keys_def
      split: threshold_var.splits)

theorem apply_is_not_atomic_witness:
  "settings_file (apply_and_save_settings
       ((corners_captured (1 / 2, 1 / 2) (101 / 200, 101 / 200))
          \<lparr>pt_new_threshold_var := ThresholdShown (41 / 2)\<rparr>)) ''pinch_threshold_distance''
     = Some (41 / 2)
   \<and> settings_file (apply_and_save_settings
       ((corners_captured (1 / 2, 1 / 2) (101 / 200, 101 / 200))
          \<lparr>pt_new_threshold_var := ThresholdShown (41 / 2)\<rparr>)) ''active_region_x_min_percent''
     = Some (15 / 100)
   \<and> settings_file (apply_and_save_settings (corners_captured (1 / 5, 1 / 5) (4 / 5, 9 / 10)))
       ''active_region_x_max_percent'' = Some (4 / 5)
   \<and> settings_file (apply_and_save_settings (corners_captured (1 / 5, 1 / 5) (4 / 5, 9 / 10)))
       ''pinch_threshold_distance'' = Some 25"
  using apply_is_not_atomic
      [of "(corners_captured (1 / 2, 1 / 2) (101 / 200, 101 / 200))
             \<lparr>pt_new_threshold_var := ThresholdShown (41 / 2)\<rparr>"
          "(1 / 2, 1 / 2)" "(101 / 200, 101 / 200)" "41 / 2"]
    apply_is_not_atomic
      [of "corners_captured (1 / 5, 1 / 5) (4 / 5, 9 / 10)" "(1 / 5, 1 / 5)" "(4 / 5, 9 / 10)"]
  by (simp add: corners_captured_def new_calibration_window_def default_config_def
      active_region_keys_def py_round_tenths py_round_41_2)

section \<open>Calibration ticks\<close>

text \<open>
  C8. A tick whose input is invalid changes nothing but the status text: the capture
  functions return the window with only the status variable set when the fingertip position
  is missing (active-region states) or the pinch distance is missing or infinite (open-hand
  and pinch states), both when called directly and through \<^verbatim>\<open>update_calibration_step\<close>. So
  the countdown, the sample lists, the corner points and the calibration state are as
  before. The countdown changes only on a tick with valid input and a positive countdown,
  which decrements it.
\<close>

theorem invalid_tick_keeps_countdown:
  "(norm_x = None \<or> norm_y = None
      \<longrightarrow> process_ar_capture w norm_x norm_y = w\<lparr>ar_status_var := ArHandNotDetected\<rparr>)
   \<and> (d = None \<or> d = Some Infinity
      \<longrightarrow> process_pinch_capture w d = w\<lparr>pt_status_var := PtHandNotClear\<rparr>)
   \<and> (show_calibration_feed w
       \<and> (calibration_state w = CALIB_STATE_WAITING_TOP_LEFT
          \<or> calibration_state w = CALIB_STATE_WAITING_BOTTOM_RIGHT)
       \<and> get_finger_tip_coordinates hand frame_width frame_height INDEX_FINGER_TIP = None
      \<longrightarrow> update_calibration_step w frame_width frame_height hand
          = Inr (w\<lparr>ar_status_var := ArHandNotDetected\<rparr>))
   \<and> (show_calibration_feed w
       \<and> (calibration_state w = CALIB_STATE_WAITING_OPEN_HAND
          \<or> calibration_state w = CALIB_STATE_WAITING_PINCH)
       \<and> snd (snd (get_pinch_info hand frame_width frame_height)) = Infinity
      \<longrightarrow> update_calibration_step w frame_width frame_height hand
          = Inr (w\<lparr>pt_status_var := PtHandNotClear\<rparr>))
   \<and> (capture_countdown (process_ar_capture w norm_x norm_y) \<noteq> capture_countdown w
      \<longrightarrow> norm_x \<noteq> None \<and> norm_y \<noteq> None \<and> 0 < capture_countdown w
          \<and> capture_countdown (process_ar_capture w norm_x norm_y) = capture_countdown w - 1)
   \<and> (capture_countdown (process_pinch_capture w d) \<noteq> capture_countdown w
      \<longrightarrow> (\<exists>v. d = Some (Finite v)) \<and> 0 < capture_countdown w
          \<and> capture_countdown (process_pinch_capture w d) = capture_countdown w - 1)
   \<and> (norm_x \<noteq> None \<and> norm_y \<noteq> None \<and> 0 < capture_countdown w
      \<longrightarrow> capture_countdown (process_ar_capture w norm_x norm_y) = capture_countdown w - 1)
   \<and> (0 < capture_countdown w
      \<longrightarrow> capture_countdown (process_pinch_capture w (Some (Finite v))) = capture_countdown w - 1)"
  by (auto simp add: process_ar_capture_def process_pinch_capture_def update_calibration_step_def
      calculate_and_display_new_pinch_threshold_def Let_def
      split: option.splits distance.splits dist_var.splits if_splits)

lemma start_top_left_state:
  "show_calibration_feed (start_capture_top_left new_calibration_window)"
  "calibration_state (start_capture_top_left new_calibration_window) = CALIB_STATE_WAITING_TOP_LEFT"
  "capture_countdown (start_capture_top_left new_calibration_window) = 120"
  by (simp_all add: start_capture_top_left_def new_calibration_window_def
      ar_capture_duration_s_def Let_def)

lemma start_open_hand_state:
  "show_calibration_feed (start_capture_open_hand new_calibration_window)"
  "calibration_state (start_capture_open_hand new_calibration_window) = CALIB_STATE_WAITING_OPEN_HAND"
  "capture_countdown (start_capture_open_hand new_calibration_window) = 180"
  by (simp_all add: start_capture_open_hand_def new_calibration_window_def
      pinch_capture_duration_s_def Let_def)

lemma no_hand_no_tip:
  "get_finger_tip_coordinates None fw fh i = None"
  "snd (snd (get_pinch_info None fw fh)) = Infinity"
  by (simp_all add: get_finger_tip_coordinates_def get_pinch_info_def)

theorem invalid_tick_keeps_countdown_witness:
  "update_calibration_step (start_capture_top_left new_calibration_window) 640 480 None
     = Inr ((start_capture_top_left new_calibration_window)\<lparr>ar_status_var := ArHandNotDetected\<rparr>)
   \<and> update_calibration_step (start_capture_open_hand new_calibration_window) 640 480 None
     = Inr ((start_capture_open_hand new_calibration_window)\<lparr>pt_status_var := PtHandNotClear\<rparr>)
   \<and> process_pinch_capture (start_capture_open_hand new_calibration_window) (Some Infinity)
     = (start_capture_open_hand new_calibration_window)\<lparr>pt_status_var := PtHandNotClear\<rparr>
   \<and> capture_countdown (process_ar_capture (start_capture_top_left new_calibration_window)
        (Some (1 / 2)) (Some (1 / 2))) = 119
   \<and> capture_countdown (process_pinch_capture (start_capture_open_hand new_calibration_window)
        (Some (Finite 30))) = 179"
proof -
  note ar = invalid_tick_keeps_countdown
      [where w = "start_capture_top_left new_calibration_window" and hand = None
         and frame_width = 640 and frame_height = 480
         and norm_x = "Some (1 / 2)" and norm_y = "Some (1 / 2)"]
  note pt = invalid_tick_keeps_countdown
      [where w = "start_capture_open_hand new_calibration_window" and hand = None
         and frame_width = 640 and frame_height = 480 and d = "Some Infinity" and v = 30]
  have 1: "update_calibration_step (start_capture_top_left new_calibration_window) 640 480 None
     = Inr ((start_capture_top_left new_calibration_window)\<lparr>ar_status_var := ArHandNotDetected\<rparr>)"
    using ar [THEN conjunct2, THEN conjunct2, THEN conjunct1]
      start_top_left_state(1,2) no_hand_no_tip(1) by blast
  have 2: "update_calibration_step (start_capture_open_hand new_calibration_window) 640 480 None
     = Inr ((start_capture_open_hand new_calibration_window)\<lparr>pt_status_var := PtHandNotClear\<rparr>)"
    using pt [THEN conjunct2, THEN conjunct2, THEN conjunct2, THEN conjunct1]
      start_open_hand_state(1,2) no_hand_no_tip(2) by blast
  have 3: "process_pinch_capture (start_capture_open_hand new_calibration_window) (Some Infinity)
     = (start_capture_open_hand new_calibration_window)\<lparr>pt_status_var := PtHandNotClear\<rparr>"
    using pt [THEN conjunct2, THEN conjunct1] by blast
  have 4: "capture_countdown (process_ar_capture (start_capture_top_left new_calibration_window)
        (Some (1 / 2)) (Some (1 / 2))) = 119"
    using ar [THEN conjunct2, THEN conjunct2, THEN conjunct2, THEN conjunct2, THEN conjunct2,
        THEN conjunct2, THEN conjunct1]
    by (simp add: start_top_left_state(3))
  have 5: "capture_countdown (process_pinch_capture (start_capture_open_hand new_calibration_window)
        (Some (Finite 30))) = 179"
    using pt [THEN conjunct2, THEN conjunct2, THEN conjunct2, THEN conjunct2, THEN conjunct2,
        THEN conjunct2, THEN conjunct2]
    by (simp add: start_open_hand_state(3))
  show ?thesis using 1 2 3 4 5 by blast
qed

text \<open>
  C9, as claimed: at the end of the countdown the stored result is the arithmetic mean of
  the samples. At one frame per second the open-hand capture collects the distances 1, 2, 2
  while the countdown runs from 3 to 0; the next tick stores 1.67, not the mean 5/3.
\<close>

theorem stored_average_is_rounded_counterexample:
  "temp_open_hand_distances (hold_open_hand 1 [1, 2, 2]) = [1, 2, 2]
   \<and> capture_countdown (hold_open_hand 1 [1, 2, 2]) = 0
   \<and> pt_open_dist_var (hold_open_hand 1 [1, 2, 2, 2]) = DistShown (167 / 100)
   \<and> pt_open_dist_var (hold_open_hand 1 [1, 2, 2, 2])
       \<noteq> DistShown (sum_list [1, 2, 2] / of_nat (length [1 :: real, 2, 2]))"
  by (simp add: hold_open_hand_def start_capture_open_hand_def process_pinch_capture_def
      new_calibration_window_def pinch_capture_duration_s_def Let_def py_round_5_3)

text \<open>
  C9, amended: in the open-hand flow (and likewise the pinch flow) every tick with a valid
  pinch distance and a positive countdown appends the distance to the sample list and
  decrements the countdown; the first valid tick with the countdown at zero stores the
  arithmetic mean of the samples rounded to two decimals and returns to Idle, or, when the
  list is empty, reports the failure, stores nothing and returns to Idle.
\<close>

theorem pinch_capture_samples_and_average:
  assumes "pinch_distance_pixels = Some (Finite d)"
  shows "(calibration_state w = CALIB_STATE_WAITING_OPEN_HAND \<and> 0 < capture_countdown w
          \<longrightarrow> temp_open_hand_distances (process_pinch_capture w pinch_distance_pixels)
                = temp_open_hand_distances w @ [d]
              \<and> capture_countdown (process_pinch_capture w pinch_distance_pixels)
                = capture_countdown w - 1
              \<and> calibration_state (process_pinch_capture w pinch_distance_pixels)
                = CALIB_STATE_WAITING_OPEN_HAND)
       \<and> (calibration_state w = CALIB_STATE_WAITING_PINCH \<and> 0 < capture_countdown w
          \<longrightarrow> temp_pinch_distances (process_pinch_capture w pinch_distance_pixels)
                = temp_pinch_distances w @ [d]
              \<and> capture_countdown (process_pinch_capture w pinch_distance_pixels)
                = capture_countdown w - 1
              \<and> calibration_state (process_pinch_capture w pinch_distance_pixels)
                = CALIB_STATE_WAITING_PINCH)
       \<and> (calibration_state w = CALIB_STATE_WAITING_OPEN_HAND \<and> capture_countdown w \<le> 0
            \<and> temp_open_hand_distances w \<noteq> []
          \<longrightarrow> pt_open_dist_var (process_pinch_capture w pinch_distance_pixels)
                = DistShown (py_round (sum_list (temp_open_hand_distances w)
                                        / of_nat (length (temp_open_hand_distances w))) 2)
              \<and> pt_status_var (process_pinch_capture w pinch_distance_pixels) = PtOpenHandCaptured
              \<and> calibration_state (process_pinch_capture w pinch_distance_pixels) = CALIB_STATE_IDLE)
       \<and> (calibration_state w = CALIB_STATE_WAITING_PINCH \<and> capture_countdown w \<le> 0
            \<and> temp_pinch_distances w \<noteq> []
          \<longrightarrow> pt_pinch_dist_var (process_pinch_capture w pinch_distance_pixels)
                = DistShown (py_round (sum_list (temp_pinch_distances w)
                                        / of_nat (length (temp_pinch_distances w))) 2)
              \<and> pt_status_var (process_pinch_capture w pinch_distance_pixels) = PtPinchCaptured
              \<and> calibration_state (process_pinch_capture w pinch_distance_pixels) = CALIB_STATE_IDLE)
       \<and> (calibration_state w = CALIB_STATE_WAITING_OPEN_HAND \<and> capture_countdown w \<le> 0
            \<and> temp_open_hand_distances w = []
          \<longrightarrow> pt_status_var (process_pinch_capture w pinch_distance_pixels) = PtOpenHandFailed
              \<and> pt_open_dist_var (process_pinch_capture w pinch_distance_pixels) = pt_open_dist_var w
              \<and> calibration_state (process_pinch_capture w pinch_distance_pixels) = CALIB_STATE_IDLE)
       \<and> (calibration_state w = CALIB_STATE_WAITING_PINCH \<and> capture_countdown w \<le> 0
            \<and> temp_pinch_distances w = []
          \<longrightarrow> pt_status_var (process_pinch_capture w pinch_distance_pixels) = PtPinchFailed
              \<and> pt_pinch_dist_var (process_pinch_capture w pinch_distance_pixels) = pt_pinch_dist_var w
              \<and> calibration_state (process_pinch_capture w pinch_distance_pixels) = CALIB_STATE_IDLE)"
  using assms
  by (auto simp add: process_pinch_capture_def calculate_and_display_new_pinch_threshold_def Let_def
      split: dist_var.splits)

theorem pinch_capture_samples_and_average_witness:
  "temp_open_hand_distances (process_pinch_capture (hold_open_hand 1 [1, 2]) (Some (Finite 2)))
     = [1, 2, 2]
   \<and> pt_open_dist_var (process_pinch_capture (hold_open_hand 1 [1, 2, 2]) (Some (Finite 2)))
     = DistShown (167 / 100)
   \<and> calibration_state (process_pinch_capture (hold_open_hand 1 [1, 2, 2]) (Some (Finite 2)))
     = CALIB_STATE_IDLE
   \<and> pt_status_var (process_pinch_capture (hold_open_hand 0 []) (Some (Finite 2)))
     = PtOpenHandFailed"
proof -
  have a: "calibration_state (hold_open_hand 1 [1, 2]) = CALIB_STATE_WAITING_OPEN_HAND
      \<and> 0 < capture_countdown (hold_open_hand 1 [1, 2])
      \<and> temp_open_hand_distances (hold_open_hand 1 [1, 2]) = [1, 2]"
    by (simp add: hold_open_hand_def start_capture_open_hand_def process_pinch_capture_def
        new_calibration_window_def pinch_capture_duration_s_def Let_def)
  have b: "calibration_state (hold_open_hand 1 [1, 2, 2]) = CALIB_STATE_WAITING_OPEN_HAND
      \<and> capture_countdown (hold_open_hand 1 [1, 2, 2]) \<le> 0
      \<and> temp_open_hand_distances (hold_open_hand 1 [1, 2, 2]) = [1, 2, 2]"
    by (simp add: hold_open_hand_def start_capture_open_hand_def process_pinch_capture_def
        new_calibration_window_def pinch_capture_duration_s_def Let_def)
  have c: "calibration_state (hold_open_hand 0 []) = CALIB_STATE_WAITING_OPEN_HAND
      \<and> capture_countdown (hold_open_hand 0 []) \<le> 0
      \<and> temp_open_hand_distances (hold_open_hand 0 []) = []"
    by (simp add: hold_open_hand_def start_capture_open_hand_def
        new_calibration_window_def pinch_capture_duration_s_def Let_def)
  show ?thesis
    using a b c
      pinch_capture_samples_and_average [of "Some (Finite 2)" 2 "hold_open_hand 1 [1, 2]"]
      pinch_capture_samples_and_average [of "Some (Finite 2)" 2 "hold_open_hand 1 [1, 2, 2]"]
      pinch_capture_samples_and_average [of "Some (Finite 2)" 2 "hold_open_hand 0 []"]
    by (simp add: py_round_5_3)
qed

section \<open>Negotiating the camera resolution\<close>

lemma actual_after_grab:
  "actual_width (snd (grab_initial_frame cap dev s)) = actual_width s"
  "actual_height (snd (grab_initial_frame cap dev s)) = actual_height s"
  by (auto simp add: grab_initial_frame_def split: prod.splits option.splits)

text \<open>
  C4. For every device that is open: when the resolution read back after the attempt is
  zero in a dimension, or more than 50% away from a valid request in a dimension, and the
  resolution the device reported when opened is positive in both dimensions, the stream sets
  that initial resolution again and \<open>actual_width\<close>, \<open>actual_height\<close> are what the device
  reports afterwards. And a request of 480x360 on the camera that reports 640x480 and
  ignores every set succeeds with \<open>actual_width\<close>, \<open>actual_height\<close> = 640, 480 (there the
  deviation is a third, and the resolution read back is accepted as it is).
\<close>

theorem fallback_to_initial_default:
  assumes "isOpened cap dev"
    and "dev1 = attempt_resolution cap dev s"
    and "py_int (get_frame_width cap dev1) = 0 \<or> py_int (get_frame_height cap dev1) = 0
         \<or> significantly_different_from_request s
              (py_int (get_frame_width cap dev1)) (py_int (get_frame_height cap dev1))"
    and "0 < fst (initial_default_resolution cap dev)"
    and "0 < snd (initial_default_resolution cap dev)"
    and "dev2 = set_frame_height cap
                  (set_frame_width cap dev1 (fst (initial_default_resolution cap dev)))
                  (snd (initial_default_resolution cap dev))"
  shows "actual_width (snd (initialize_stream cap dev s)) = py_int (get_frame_width cap dev2)
       \<and> actual_height (snd (initialize_stream cap dev s)) = py_int (get_frame_height cap dev2)
       \<and> fst (initialize_stream refusing_camera (640, 480) (new_stream 480 360))
       \<and> actual_width (snd (initialize_stream refusing_camera (640, 480) (new_stream 480 360))) = 640
       \<and> actual_height (snd (initialize_stream refusing_camera (640, 480) (new_stream 480 360))) = 480"
proof -
  have general: "actual_width (snd (initialize_stream cap dev s)) = py_int (get_frame_width cap dev2)
       \<and> actual_height (snd (initialize_stream cap dev s)) = py_int (get_frame_height cap dev2)"
    using assms by (auto simp add: initialize_stream_def Let_def actual_after_grab)
  have example: "initialize_stream refusing_camera (640, 480) (new_stream 480 360)
      = (True, (new_stream 480 360)\<lparr>actual_width := 640, actual_height := 480, grabbed := True,
           stream := Some (640, 480), frame_queue := [0]\<rparr>)"
    by (simp add: initialize_stream_def refusing_camera_def new_stream_def attempt_resolution_def
        initial_default_resolution_def significantly_different_from_request_def
        grab_initial_frame_def py_int_def Let_def)
  show ?thesis using general by (simp add: example)
qed

theorem fallback_to_initial_default_witness:
  "significantly_different_from_request (new_stream 1920 1080) 640 480
   \<and> actual_width (snd (initialize_stream refusing_camera (640, 480) (new_stream 1920 1080))) = 640
   \<and> actual_height (snd (initialize_stream refusing_camera (640, 480) (new_stream 1920 1080))) = 480"
proof -
  have d: "significantly_different_from_request (new_stream 1920 1080) 640 480"
    by (simp add: significantly_different_from_request_def new_stream_def)
  have g: "py_int (get_frame_width refusing_camera (640, 480)) = 640"
    "py_int (get_frame_height refusing_camera (640, 480)) = 480"
    by (simp_all add: refusing_camera_def py_int_def)
  have a: "(640, 480) = attempt_resolution refusing_camera (640, 480) (new_stream 1920 1080)"
    by (simp add: attempt_resolution_def refusing_camera_def Let_def)
  have i: "initial_default_resolution refusing_camera (640, 480) = (640, 480)"
    by (simp add: initial_default_resolution_def g)
  have s: "(640, 480) = set_frame_height refusing_camera
      (set_frame_width refusing_camera (640, 480)
         (fst (initial_default_resolution refusing_camera (640, 480))))
      (snd (initial_default_resolution refusing_camera (640, 480)))"
    by (simp add: refusing_camera_def)
  have o: "isOpened refusing_camera (640, 480)"
    by (simp add: refusing_camera_def)
  have c: "py_int (get_frame_width refusing_camera (640, 480)) = 0
      \<or> py_int (get_frame_height refusing_camera (640, 480)) = 0
      \<or> significantly_different_from_request (new_stream 1920 1080)
           (py_int (get_frame_width refusing_camera (640, 480)))
           (py_int (get_frame_height refusing_camera (640, 480)))"
    using d by (simp only: g simp_thms)
  have p: "0 < fst (initial_default_resolution refusing_camera (640, 480))"
    "0 < snd (initial_default_resolution refusing_camera (640, 480))"
    by (simp_all add: i)
  note t = fallback_to_initial_default [OF o a c p s]
  show ?thesis
    using d t [THEN conjunct1] t [THEN conjunct2, THEN conjunct1] by (simp only: g simp_thms)
qed

section \<open>Mapping the fingertip to the screen\<close>

text \<open>
  C7, as claimed: whenever the effective region is wider and higher than 0.01, the centre of
  its pixel bounds maps to the screen midpoint. On a frame of 10x10 pixels the effective
  region (0.53, 0.55) x (0.53, 0.55) has the pixel bounds 5..5 in both dimensions; the
  fingertip at their centre (5, 5) maps to the corner (1920, 1080) of the screen.
\<close>

theorem centre_of_collapsed_bounds_counterexample:
  "effective_active_region narrow_region_app = Inr (53 / 100, 55 / 100, 53 / 100, 55 / 100)
   \<and> pixel_bounds (53 / 100, 55 / 100, 53 / 100, 55 / 100) 10 10 = (5, 5, 5, 5)
   \<and> raw_target_screen narrow_region_app (5, 5, 5, 5) (5, 5) = (1920, 1080)
   \<and> raw_target_screen narrow_region_app (5, 5, 5, 5) (5, 5)
       \<noteq> (of_int (screen_width narrow_region_app) / 2, of_int (screen_height narrow_region_app) / 2)"
  by (simp add: narrow_region_app_def default_app_def effective_active_region_def pixel_bounds_def
      raw_target_screen_def np_clip_def np_interp_def py_int_def Let_def)

lemma effective_region_nonneg:
  assumes "effective_active_region a = Inr (x0, x1, y0, y1)"
  shows "0 \<le> x0 \<and> 0 \<le> y0"
  using assms
  by (auto simp add: effective_active_region_def Let_def np_clip_def split: if_splits)

lemma floor_gap:
  fixes p q :: real
  assumes "p + 1 \<le> q"
  shows "\<lfloor>p\<rfloor> < \<lfloor>q\<rfloor>"
proof -
  have "\<lfloor>p\<rfloor> + 1 = \<lfloor>p + 1\<rfloor>" by simp
  also have "\<dots> \<le> \<lfloor>q\<rfloor>" using assms by (rule floor_mono)
  finally show ?thesis by simp
qed

lemma pixel_gap:
  fixes x0 x1 :: real and n :: int
  assumes "0 \<le> x0" and "x1 - x0 > 0.01" and "100 \<le> n"
  shows "py_int (x0 * of_int n) < py_int (x1 * of_int n)"
proof -
  have n: "(100 :: real) \<le> of_int n" using assms(3) by linarith
  have "x0 * of_int n + 1 \<le> x0 * of_int n + 0.01 * of_int n" using n by simp
  also have "\<dots> = (x0 + 0.01) * of_int n" by (simp add: algebra_simps)
  also have "\<dots> \<le> x1 * of_int n"
    using assms(2) n by (intro mult_right_mono) auto
  finally have g: "x0 * of_int n + 1 \<le> x1 * of_int n" .
  have p0: "0 \<le> x0 * of_int n" using assms(1) n by simp
  then have p1: "0 \<le> x1 * of_int n" using g by linarith
  show ?thesis using floor_gap [OF g] p0 p1 by (simp add: py_int_def)
qed

lemma interp_midpoint:
  fixes lo hi c :: int
  assumes "lo < hi" and "2 * c = lo + hi"
  shows "np_interp (np_clip (of_int c) (of_int lo) (of_int hi)) (of_int lo, of_int hi) (0, w) = w / 2"
proof -
  have c: "lo < c" "c < hi" using assms by linarith+
  then have clip: "np_clip (of_int c) (of_int lo) (of_int hi) = (of_int c :: real)"
    by (simp add: np_clip_def)
  have d: "(of_int hi - of_int lo :: real) \<noteq> 0" using assms(1) by simp
  have e: "(of_int c - of_int lo :: real) = (of_int hi - of_int lo) / 2"
  proof -
    have "(2 :: real) * of_int c = of_int lo + of_int hi"
      using assms(2) by (metis of_int_add of_int_mult of_int_numeral)
    then show ?thesis by (simp add: field_simps)
  qed
  have "w / (of_int hi - of_int lo) * ((of_int hi - of_int lo) / 2) = w / 2"
    using d by simp
  then have "w / (of_int hi - of_int lo) * (of_int c - of_int lo) = w / 2"
    by (simp only: e)
  then show ?thesis using c by (simp add: clip np_interp_def Let_def)
qed

text \<open>
  C7, amended: for every active region whose effective width and height exceed 0.01, on a
  frame at least 100 pixels wide and high, a fingertip at the exact centre of the effective
  region's pixel bounds maps to the screen midpoint.
\<close>

theorem centre_maps_to_screen_midpoint:
  assumes "effective_active_region a = Inr (x0, x1, y0, y1)"
    and "x1 - x0 > 0.01" and "y1 - y0 > 0.01"
    and "100 \<le> frame_width" and "100 \<le> frame_height"
    and "pixel_bounds (x0, x1, y0, y1) frame_width frame_height = (ax1, ay1, ax2, ay2)"
    and "2 * ix = ax1 + ax2" and "2 * iy = ay1 + ay2"
  shows "raw_target_screen a (ax1, ay1, ax2, ay2) (ix, iy)
         = (of_int (screen_width a) / 2, of_int (screen_height a) / 2)"
proof -
  have nn: "0 \<le> x0 \<and> 0 \<le> y0" using assms(1) by (rule effective_region_nonneg)
  have bx: "ax1 < ax2"
    using pixel_gap [of x0 x1 frame_width] nn assms(2,4,6) by (simp add: pixel_bounds_def)
  have "by": "ay1 < ay2"
    using pixel_gap [of y0 y1 frame_height] nn assms(3,5,6) by (simp add: pixel_bounds_def)
  show ?thesis
    using interp_midpoint [OF bx assms(7)] interp_midpoint [OF "by" assms(8)]
    by (simp add: raw_target_screen_def Let_def)
qed

theorem centre_maps_to_screen_midpoint_witness:
  "effective_active_region default_app = Inr (4 / 15, 11 / 15, 4 / 15, 11 / 15)
   \<and> pixel_bounds (4 / 15, 11 / 15, 4 / 15, 11 / 15) 600 480 = (160, 128, 440, 352)
   \<and> raw_target_screen default_app (160, 128, 440, 352) (300, 240) = (960, 540)"
proof -
  have e: "effective_active_region default_app = Inr (4 / 15, 11 / 15, 4 / 15, 11 / 15)"
    by (simp add: default_app_def effective_active_region_def np_clip_def Let_def)
  have p: "pixel_bounds (4 / 15, 11 / 15, 4 / 15, 11 / 15) 600 480 = (160, 128, 440, 352)"
    by (simp add: pixel_bounds_def py_int_def)
  show ?thesis
    using e p centre_maps_to_screen_midpoint [OF e _ _ _ _ p, of 300 240]
    by (simp add: default_app_def)
qed

section \<open>The smoothing filter\<close>

lemma deque_append_const:
  assumes "\<forall>v \<in> set xs. v = t"
  shows "\<forall>v \<in> set (deque_append n xs t). v = t"
proof -
  have "set (deque_append n xs t) \<subseteq> set (xs @ [t])"
    unfolding deque_append_def Let_def by (rule set_drop_subset)
  then show ?thesis using assms by auto
qed

lemma deque_append_empty: "deque_append n xs x = [] \<longleftrightarrow> n = 0"
  by (auto simp add: deque_append_def Let_def)

lemma sum_list_const:
  fixes t :: real
  assumes "\<forall>v \<in> set xs. v = t"
  shows "sum_list xs = of_nat (length xs) * t"
  using assms by (induction xs) (auto simp add: algebra_simps)

lemma mean_const:
  fixes t :: real
  assumes "\<forall>v \<in> set xs. v = t" and "xs \<noteq> []"
  shows "sum_list xs / of_nat (length xs) = t"
  using sum_list_const [OF assms(1)] assms(2) by simp

lemma smooth_cursor_fields:
  "smoothing_factor (smooth_cursor a raw) = smoothing_factor a"
  "raw_target_buffer_size (smooth_cursor a raw) = raw_target_buffer_size a"
  "raw_target_history_x (smooth_cursor a raw)
     = deque_append (raw_target_buffer_size a) (raw_target_history_x a) (fst raw)"
  "raw_target_history_y (smooth_cursor a raw)
     = deque_append (raw_target_buffer_size a) (raw_target_history_y a) (snd raw)"
  by (simp_all add: smooth_cursor_def Let_def)

lemma smooth_cursor_formula:
  "prev_cursor_x (smooth_cursor a raw)
     = prev_cursor_x a * (1 - smoothing_factor a)
       + (if raw_target_history_x (smooth_cursor a raw) \<noteq> []
          then sum_list (raw_target_history_x (smooth_cursor a raw))
               / of_nat (length (raw_target_history_x (smooth_cursor a raw)))
          else fst raw) * smoothing_factor a"
  "prev_cursor_y (smooth_cursor a raw)
     = prev_cursor_y a * (1 - smoothing_factor a)
       + (if raw_target_history_x (smooth_cursor a raw) \<noteq> []
          then sum_list (raw_target_history_y (smooth_cursor a raw))
               / of_nat (length (raw_target_history_y (smooth_cursor a raw)))
          else snd raw) * smoothing_factor a"
  by (simp_all add: smooth_cursor_def Let_def)

lemma smooth_cursor_const_x:
  assumes "\<forall>v \<in> set (raw_target_history_x a). v = tx"
  shows "prev_cursor_x (smooth_cursor a (tx, ty)) - tx
         = (1 - smoothing_factor a) * (prev_cursor_x a - tx)"
proof -
  let ?h = "raw_target_history_x (smooth_cursor a (tx, ty))"
  have c: "\<forall>v \<in> set ?h. v = tx"
    using deque_append_const [OF assms] by (simp add: smooth_cursor_fields)
  have m: "(if ?h \<noteq> [] then sum_list ?h / of_nat (length ?h) else fst (tx, ty)) = tx"
    using mean_const [OF c] by simp
  have "prev_cursor_x (smooth_cursor a (tx, ty))
      = prev_cursor_x a * (1 - smoothing_factor a) + tx * smoothing_factor a"
    by (subst smooth_cursor_formula(1)) (simp only: m)
  then show ?thesis by (simp add: algebra_simps)
qed

lemma smooth_cursor_const_y:
  assumes "\<forall>v \<in> set (raw_target_history_y a). v = ty"
  shows "prev_cursor_y (smooth_cursor a (tx, ty)) - ty
         = (1 - smoothing_factor a) * (prev_cursor_y a - ty)"
proof -
  let ?hx = "raw_target_history_x (smooth_cursor a (tx, ty))"
  let ?h = "raw_target_history_y (smooth_cursor a (tx, ty))"
  have c: "\<forall>v \<in> set ?h. v = ty"
    using deque_append_const [OF assms] by (simp add: smooth_cursor_fields)
  have e: "?hx \<noteq> [] \<longleftrightarrow> ?h \<noteq> []"
    by (simp add: smooth_cursor_fields deque_append_empty)
  have m: "(if ?hx \<noteq> [] then sum_list ?h / of_nat (length ?h) else snd (tx, ty)) = ty"
    using mean_const [OF c] e by simp
  have "prev_cursor_y (smooth_cursor a (tx, ty))
      = prev_cursor_y a * (1 - smoothing_factor a) + ty * smoothing_factor a"
    by (subst smooth_cursor_formula(2)) (simp only: m)
  then show ?thesis by (simp add: algebra_simps)
qed

lemma hold_target_invariant:
  assumes "\<forall>v \<in> set (raw_target_history_x a). v = tx"
    and "\<forall>v \<in> set (raw_target_history_y a). v = ty"
  shows "smoothing_factor (hold_target a (tx, ty) n) = smoothing_factor a
       \<and> (\<forall>v \<in> set (raw_target_history_x (hold_target a (tx, ty) n)). v = tx)
       \<and> (\<forall>v \<in> set (raw_target_history_y (hold_target a (tx, ty) n)). v = ty)"
proof (induction n)
  case 0
  then show ?case using assms by simp
next
  case (Suc n)
  then show ?case
    using deque_append_const [of "raw_target_history_x (hold_target a (tx, ty) n)" tx]
      deque_append_const [of "raw_target_history_y (hold_target a (tx, ty) n)" ty]
    by (simp add: smooth_cursor_fields)
qed

lemma hold_target_gap:
  assumes "\<forall>v \<in> set (raw_target_history_x a). v = tx"
    and "\<forall>v \<in> set (raw_target_history_y a). v = ty"
  shows "prev_cursor_x (hold_target a (tx, ty) n) - tx
           = (1 - smoothing_factor a) ^ n * (prev_cursor_x a - tx)
       \<and> prev_cursor_y (hold_target a (tx, ty) n) - ty
           = (1 - smoothing_factor a) ^ n * (prev_cursor_y a - ty)"
proof (induction n)
  case 0
  then show ?case by simp
next
  case (Suc n)
  note inv = hold_target_invariant [OF assms, of n]
  have x: "prev_cursor_x (hold_target a (tx, ty) (Suc n)) - tx
      = (1 - smoothing_factor a) * (prev_cursor_x (hold_target a (tx, ty) n) - tx)"
    using smooth_cursor_const_x [of "hold_target a (tx, ty) n" tx ty] inv by simp
  have y: "prev_cursor_y (hold_target a (tx, ty) (Suc n)) - ty
      = (1 - smoothing_factor a) * (prev_cursor_y (hold_target a (tx, ty) n) - ty)"
    using smooth_cursor_const_y [of "hold_target a (tx, ty) n" ty tx] inv by simp
  show ?case using x y Suc by simp
qed

lemma ticks_to_one_percent: "\<lceil>ln (1 / 100) / ln (4 / 5 :: real)\<rceil> = 21"
proof -
  have neg: "ln (4 / 5 :: real) < 0" by simp
  have u: "ln ((4 / 5 :: real) ^ 21) \<le> ln (1 / 100)"
    by (subst ln_le_cancel_iff) (simp_all add: power_divide)
  have l: "ln (1 / 100 :: real) < ln ((4 / 5) ^ 20)"
    by (subst ln_less_cancel_iff) (simp_all add: power_divide)
  have u': "21 * ln (4 / 5 :: real) \<le> ln (1 / 100)"
    using u by (simp add: ln_realpow)
  have l': "ln (1 / 100 :: real) < 20 * ln (4 / 5)"
    using l by (simp add: ln_realpow)
  have a: "ln (1 / 100) / ln (4 / 5 :: real) \<le> 21"
    using u' neg by (simp add: divide_le_eq)
  have b: "20 < ln (1 / 100) / ln (4 / 5 :: real)"
    using l' neg by (simp add: less_divide_eq)
  show ?thesis
    using a b by (intro ceiling_unique) simp_all
qed

lemma four_fifths_21: "n \<ge> 21 \<Longrightarrow> (4 / 5 :: real) ^ n \<le> 1 / 100"
proof -
  assume n: "n \<ge> 21"
  have "(4 / 5 :: real) ^ n \<le> (4 / 5) ^ 21"
    using n by (intro power_decreasing) simp_all
  also have "\<dots> \<le> 1 / 100" by (simp add: power_divide)
  finally show ?thesis .
qed

text \<open>
  C5. The smoothing step computes \<open>next = prev * (1 - \<alpha>) + stage1 * \<alpha>\<close>, where \<open>stage1\<close> is
  the arithmetic mean of the history after the push (for a buffer of positive capacity).
  For a constant raw target \<open>(tx, ty)\<close> and \<open>0 < \<alpha> < 1\<close>, once the history holds only the
  target, the distance of the cursor to the target after \<open>n\<close> ticks is \<open>(1 - \<alpha>) ^ n\<close> times
  the initial distance, so it never grows from one tick to the next; with \<open>\<alpha> = 0.2\<close> it is
  at most 1% of the initial distance from tick \<open>\<lceil>ln 0.01 / ln 0.8\<rceil>\<close> on, which is tick 21.
\<close>

theorem smoothing_converges_geometrically:
  assumes "0 < smoothing_factor a" and "smoothing_factor a < 1"
    and "\<forall>v \<in> set (raw_target_history_x a). v = tx"
    and "\<forall>v \<in> set (raw_target_history_y a). v = ty"
  shows "(0 < raw_target_buffer_size b \<longrightarrow>
            prev_cursor_x (smooth_cursor b raw)
              = prev_cursor_x b * (1 - smoothing_factor b)
                + sum_list (raw_target_history_x (smooth_cursor b raw))
                  / of_nat (length (raw_target_history_x (smooth_cursor b raw)))
                  * smoothing_factor b
          \<and> prev_cursor_y (smooth_cursor b raw)
              = prev_cursor_y b * (1 - smoothing_factor b)
                + sum_list (raw_target_history_y (smooth_cursor b raw))
                  / of_nat (length (raw_target_history_y (smooth_cursor b raw)))
                  * smoothing_factor b)
       \<and> \<bar>prev_cursor_x (hold_target a (tx, ty) n) - tx\<bar>
           = (1 - smoothing_factor a) ^ n * \<bar>prev_cursor_x a - tx\<bar>
       \<and> \<bar>prev_cursor_y (hold_target a (tx, ty) n) - ty\<bar>
           = (1 - smoothing_factor a) ^ n * \<bar>prev_cursor_y a - ty\<bar>
       \<and> \<bar>prev_cursor_x (hold_target a (tx, ty) (Suc n)) - tx\<bar>
           \<le> \<bar>prev_cursor_x (hold_target a (tx, ty) n) - tx\<bar>
       \<and> \<bar>prev_cursor_y (hold_target a (tx, ty) (Suc n)) - ty\<bar>
           \<le> \<bar>prev_cursor_y (hold_target a (tx, ty) n) - ty\<bar>
       \<and> (smoothing_factor a = 1 / 5 \<and> nat \<lceil>ln (1 / 100) / ln (4 / 5 :: real)\<rceil> \<le> n \<longrightarrow>
            \<bar>prev_cursor_x (hold_target a (tx, ty) n) - tx\<bar> \<le> \<bar>prev_cursor_x a - tx\<bar> / 100
          \<and> \<bar>prev_cursor_y (hold_target a (tx, ty) n) - ty\<bar> \<le> \<bar>prev_cursor_y a - ty\<bar> / 100)
       \<and> \<lceil>ln (1 / 100) / ln (4 / 5 :: real)\<rceil> = 21"
proof -
  let ?q = "1 - smoothing_factor a"
  have q: "0 \<le> ?q" "?q \<le> 1" using assms(1,2) by simp_all
  have formula: "0 < raw_target_buffer_size b \<longrightarrow>
            prev_cursor_x (smooth_cursor b raw)
              = prev_cursor_x b * (1 - smoothing_factor b)
                + sum_list (raw_target_history_x (smooth_cursor b raw))
                  / of_nat (length (raw_target_history_x (smooth_cursor b raw)))
                  * smoothing_factor b
          \<and> prev_cursor_y (smooth_cursor b raw)
              = prev_cursor_y b * (1 - smoothing_factor b)
                + sum_list (raw_target_history_y (smooth_cursor b raw))
                  / of_nat (length (raw_target_history_y (smooth_cursor b raw)))
                  * smoothing_factor b"
  proof
    assume "0 < raw_target_buffer_size b"
    then have "raw_target_history_x (smooth_cursor b raw) \<noteq> []"
      by (simp add: smooth_cursor_fields deque_append_empty)
    then show "prev_cursor_x (smooth_cursor b raw)
              = prev_cursor_x b * (1 - smoothing_factor b)
                + sum_list (raw_target_history_x (smooth_cursor b raw))
                  / of_nat (length (raw_target_history_x (smooth_cursor b raw)))
                  * smoothing_factor b
          \<and> prev_cursor_y (smooth_cursor b raw)
              = prev_cursor_y b * (1 - smoothing_factor b)
                + sum_list (raw_target_history_y (smooth_cursor b raw))
                  / of_nat (length (raw_target_history_y (smooth_cursor b raw)))
                  * smoothing_factor b"
      using smooth_cursor_formula [of b raw] by simp
  qed
  have gap: "\<And>k. prev_cursor_x (hold_target a (tx, ty) k) - tx = ?q ^ k * (prev_cursor_x a - tx)
      \<and> prev_cursor_y (hold_target a (tx, ty) k) - ty = ?q ^ k * (prev_cursor_y a - ty)"
    using hold_target_gap [OF assms(3,4)] by simp
  have ax: "\<And>k. \<bar>prev_cursor_x (hold_target a (tx, ty) k) - tx\<bar> = ?q ^ k * \<bar>prev_cursor_x a - tx\<bar>"
    using gap q by (simp add: abs_mult)
  have ay: "\<And>k. \<bar>prev_cursor_y (hold_target a (tx, ty) k) - ty\<bar> = ?q ^ k * \<bar>prev_cursor_y a - ty\<bar>"
    using gap q by (simp add: abs_mult)
  have dec: "?q ^ Suc n \<le> ?q ^ n"
    using q by (intro power_decreasing) simp_all
  have mx: "\<bar>prev_cursor_x (hold_target a (tx, ty) (Suc n)) - tx\<bar>
      \<le> \<bar>prev_cursor_x (hold_target a (tx, ty) n) - tx\<bar>"
    unfolding ax using dec by (intro mult_right_mono) simp_all
  have my: "\<bar>prev_cursor_y (hold_target a (tx, ty) (Suc n)) - ty\<bar>
      \<le> \<bar>prev_cursor_y (hold_target a (tx, ty) n) - ty\<bar>"
    unfolding ay using dec by (intro mult_right_mono) simp_all
  have one_percent: "smoothing_factor a = 1 / 5 \<and> nat \<lceil>ln (1 / 100) / ln (4 / 5 :: real)\<rceil> \<le> n \<longrightarrow>
            \<bar>prev_cursor_x (hold_target a (tx, ty) n) - tx\<bar> \<le> \<bar>prev_cursor_x a - tx\<bar> / 100
          \<and> \<bar>prev_cursor_y (hold_target a (tx, ty) n) - ty\<bar> \<le> \<bar>prev_cursor_y a - ty\<bar> / 100"
  proof
    assume h: "smoothing_factor a = 1 / 5 \<and> nat \<lceil>ln (1 / 100) / ln (4 / 5 :: real)\<rceil> \<le> n"
    then have n: "21 \<le> n" by (simp add: ticks_to_one_percent)
    have qv: "?q = 4 / 5" using h by simp
    have p: "?q ^ n \<le> 1 / 100" unfolding qv using n by (rule four_fifths_21)
    have "?q ^ n * \<bar>prev_cursor_x a - tx\<bar> \<le> 1 / 100 * \<bar>prev_cursor_x a - tx\<bar>"
      using p by (intro mult_right_mono) simp_all
    moreover have "?q ^ n * \<bar>prev_cursor_y a - ty\<bar> \<le> 1 / 100 * \<bar>prev_cursor_y a - ty\<bar>"
      using p by (intro mult_right_mono) simp_all
    ultimately show "\<bar>prev_cursor_x (hold_target a (tx, ty) n) - tx\<bar> \<le> \<bar>prev_cursor_x a - tx\<bar> / 100
          \<and> \<bar>prev_cursor_y (hold_target a (tx, ty) n) - ty\<bar> \<le> \<bar>prev_cursor_y a - ty\<bar> / 100"
      unfolding ax ay by simp
  qed
  show ?thesis
    using formula ax [of n] ay [of n] mx my one_percent ticks_to_one_percent by blast
qed

theorem smoothing_converges_geometrically_witness:
  "\<bar>prev_cursor_x (hold_target default_app (0, 0) 1) - 0\<bar> = 768
   \<and> \<bar>prev_cursor_y (hold_target default_app (0, 0) 2) - 0\<bar> = 1728 / 5
   \<and> \<bar>prev_cursor_x (hold_target default_app (0, 0) 21) - 0\<bar> \<le> 960 / 100
   \<and> prev_cursor_x (smooth_cursor default_app (0, 0)) = 768"
proof -
  have f: "smoothing_factor default_app = 1 / 5" "prev_cursor_x default_app = 960"
    "prev_cursor_y default_app = 540" "raw_target_history_x default_app = []"
    "raw_target_history_y default_app = []" "raw_target_buffer_size default_app = 5"
    by (simp_all add: default_app_def)
  have h: "0 < smoothing_factor default_app" "smoothing_factor default_app < 1"
    "\<forall>v \<in> set (raw_target_history_x default_app). v = 0"
    "\<forall>v \<in> set (raw_target_history_y default_app). v = 0"
    by (simp_all add: f)
  note t1 = smoothing_converges_geometrically [OF h, of default_app "(0, 0)" 1]
  note t2 = smoothing_converges_geometrically [OF h, of default_app "(0, 0)" 2]
  note t21 = smoothing_converges_geometrically [OF h, of default_app "(0, 0)" 21]
  have 1: "\<bar>prev_cursor_x (hold_target default_app (0, 0) 1) - 0\<bar> = 768"
    using t1 [THEN conjunct2, THEN conjunct1] by (simp add: f)
  have 2: "\<bar>prev_cursor_y (hold_target default_app (0, 0) 2) - 0\<bar> = 1728 / 5"
    using t2 [THEN conjunct2, THEN conjunct2, THEN conjunct1] by (simp add: f power2_eq_square)
  have n: "nat \<lceil>ln (1 / 100) / ln (4 / 5 :: real)\<rceil> \<le> 21"
    using t21 [THEN conjunct2, THEN conjunct2, THEN conjunct2, THEN conjunct2, THEN conjunct2,
        THEN conjunct2]
    by simp
  have 3: "\<bar>prev_cursor_x (hold_target default_app (0, 0) 21) - 0\<bar> \<le> 960 / 100"
    using t21 [THEN conjunct2, THEN conjunct2, THEN conjunct2, THEN conjunct2, THEN conjunct2,
        THEN conjunct1] f(1,2) n
    by simp
  have hx: "raw_target_history_x (smooth_cursor default_app (0, 0)) = [0]"
    by (simp add: smooth_cursor_fields f deque_append_def)
  have 4: "prev_cursor_x (smooth_cursor default_app (0, 0)) = 768"
    using t1 [THEN conjunct1] by (simp add: f hx)
  show ?thesis using 1 2 3 4 by blast
qed

section \<open>Losing and finding the hand\<close>

lemma settings_smooth_cursor: "settings_of (smooth_cursor a raw) = settings_of a"
  by (simp add: settings_of_def smooth_cursor_def Let_def)

lemma settings_pinch_click: "settings_of (pinch_click a h fw fh t) = settings_of a"
  by (simp add: settings_of_def pinch_click_def Let_def)

lemma settings_mouse_control: "settings_of (mouse_control a) = settings_of a"
  by (simp add: settings_of_def mouse_control_def Let_def)

lemma tracking_pinch_click: "tracking_of (pinch_click a h fw fh t) = tracking_of a"
  by (simp add: tracking_of_def pinch_click_def Let_def)

lemma tracking_mouse_control: "tracking_of (mouse_control a) = tracking_of a"
  by (simp add: tracking_of_def mouse_control_def Let_def)

lemma settings_region:
  "settings_of a' = settings_of a \<Longrightarrow> effective_active_region a' = effective_active_region a"
  by (simp add: settings_of_def effective_active_region_def)

lemma settings_raw_target:
  "settings_of a' = settings_of a \<Longrightarrow> raw_target_screen a' bounds tip = raw_target_screen a bounds tip"
  by (simp add: settings_of_def raw_target_screen_def)

lemma frame_without_hand:
  assumes "is_control_active a" and "effective_active_region a = Inr region"
  shows "process_video_frame a fw fh None t
         = Inr (a\<lparr>status_var := StatusNoHandDetected, is_pinching_prev_frame := False,
                  raw_target_history_x := [], raw_target_history_y := []\<rparr>)"
  using assms by (simp add: process_video_frame_def Let_def)

lemma frame_with_fingertip:
  assumes "is_control_active a" and "effective_active_region a = Inr region"
    and "get_finger_tip_coordinates h fw fh INDEX_FINGER_TIP = Some tip"
  shows "process_video_frame a fw fh h t
         = Inr (mouse_control
                  (pinch_click (smooth_cursor a (raw_target_screen a (pixel_bounds region fw fh) tip))
                     h fw fh t))"
proof -
  obtain lms where h: "h = Some lms"
    using assms(3) by (cases h) (simp_all add: get_finger_tip_coordinates_def)
  show ?thesis
    using assms by (simp add: process_video_frame_def Let_def h)
qed

lemma frame_keeps_settings:
  assumes "effective_active_region a = Inr region"
  shows "\<exists>a'. process_video_frame a fw fh h t = Inr a' \<and> settings_of a' = settings_of a"
proof (cases "is_control_active a")
  case False
  then show ?thesis by (simp add: process_video_frame_def)
next
  case True
  show ?thesis
  proof (cases h)
    case None
    then show ?thesis
      using frame_without_hand [OF True assms] by (simp add: settings_of_def)
  next
    case (Some lms)
    show ?thesis
    proof (cases "get_finger_tip_coordinates h fw fh INDEX_FINGER_TIP")
      case None
      then show ?thesis
        using True assms Some
        by (simp add: process_video_frame_def Let_def settings_pinch_click)
    next
      case (Some tip)
      then show ?thesis
        using frame_with_fingertip [OF True assms Some]
        by (simp add: settings_mouse_control settings_pinch_click settings_smooth_cursor)
    qed
  qed
qed

lemma run_keeps_settings:
  assumes "effective_active_region a = Inr region"
  shows "\<exists>a'. run_frames a fs = Inr a' \<and> settings_of a' = settings_of a"
  using assms
proof (induction fs arbitrary: a)
  case Nil
  then show ?case by simp
next
  case (Cons f fs)
  obtain a1 where a1: "process_video_frame a (frame_width_in f) (frame_height_in f)
        (landmarks_in f) (clock_in f) = Inr a1" "settings_of a1 = settings_of a"
    using frame_keeps_settings [OF Cons.prems] by blast
  have "effective_active_region a1 = Inr region"
    using settings_region [OF a1(2)] Cons.prems by simp
  then obtain a' where "run_frames a1 fs = Inr a'" "settings_of a' = settings_of a1"
    using Cons.IH by blast
  then show ?case using a1 by simp
qed

lemma run_frames_append:
  "run_frames a (fs @ gs)
   = (case run_frames a fs of Inl e \<Rightarrow> Inl e | Inr a' \<Rightarrow> run_frames a' gs)"
  by (induction fs arbitrary: a) (simp_all split: sum.splits)

text \<open>
  C6. With control active, a nonzero sensitivity and a buffer of positive capacity: after
  any earlier frames (in particular \<open>N\<close> frames with a hand), a frame without a hand leaves
  both histories empty and the previous cursor as it was; the frame after it, with a
  fingertip, leaves exactly its own raw target in each history, so the stage-1 average is
  that sample, and the cursor is smoothed from the position before the loss.
\<close>

theorem history_restarts_after_lost_hand:
  assumes "is_control_active a"
    and "effective_active_region a = Inr region"
    and "0 < raw_target_buffer_size a"
    and "landmarks_in lost = None"
    and "get_finger_tip_coordinates (landmarks_in back) (frame_width_in back)
           (frame_height_in back) INDEX_FINGER_TIP = Some tip"
    and "sample = raw_target_screen a
           (pixel_bounds region (frame_width_in back) (frame_height_in back)) tip"
  shows "\<exists>a0 a1 a2.
           run_frames a earlier = Inr a0
         \<and> run_frames a (earlier @ [lost]) = Inr a1
         \<and> run_frames a (earlier @ [lost, back]) = Inr a2
         \<and> raw_target_history_x a1 = [] \<and> raw_target_history_y a1 = []
         \<and> prev_cursor_x a1 = prev_cursor_x a0 \<and> prev_cursor_y a1 = prev_cursor_y a0
         \<and> raw_target_history_x a2 = [fst sample] \<and> raw_target_history_y a2 = [snd sample]
         \<and> sum_list (raw_target_history_x a2) / of_nat (length (raw_target_history_x a2))
             = fst sample
         \<and> sum_list (raw_target_history_y a2) / of_nat (length (raw_target_history_y a2))
             = snd sample
         \<and> prev_cursor_x a2
             = prev_cursor_x a0 * (1 - smoothing_factor a) + fst sample * smoothing_factor a
         \<and> prev_cursor_y a2
             = prev_cursor_y a0 * (1 - smoothing_factor a) + snd sample * smoothing_factor a"
proof -
  obtain a0 where a0: "run_frames a earlier = Inr a0" "settings_of a0 = settings_of a"
    using run_keeps_settings [OF assms(2)] by blast
  have r0: "effective_active_region a0 = Inr region"
    using settings_region [OF a0(2)] assms(2) by simp
  have c0: "is_control_active a0" "raw_target_buffer_size a0 = raw_target_buffer_size a"
    "smoothing_factor a0 = smoothing_factor a"
    using a0(2) assms(1) by (simp_all add: settings_of_def)
  define a1 where "a1 = a0\<lparr>status_var := StatusNoHandDetected, is_pinching_prev_frame := False,
                  raw_target_history_x := [], raw_target_history_y := []\<rparr>"
  have s1: "process_video_frame a0 (frame_width_in lost) (frame_height_in lost)
      (landmarks_in lost) (clock_in lost) = Inr a1"
    unfolding a1_def assms(4) using c0(1) r0 by (rule frame_without_hand)
  have f1: "settings_of a1 = settings_of a0" "raw_target_history_x a1 = []"
    "raw_target_history_y a1 = []" "prev_cursor_x a1 = prev_cursor_x a0"
    "prev_cursor_y a1 = prev_cursor_y a0"
    by (simp_all add: a1_def settings_of_def)
  have r1: "effective_active_region a1 = Inr region"
    using settings_region [OF f1(1)] r0 by simp
  have c1: "is_control_active a1" "raw_target_buffer_size a1 = raw_target_buffer_size a"
    "smoothing_factor a1 = smoothing_factor a"
    using c0 by (simp_all add: a1_def)
  have sample1: "raw_target_screen a1
      (pixel_bounds region (frame_width_in back) (frame_height_in back)) tip = sample"
    using settings_raw_target [of a1 a] f1(1) a0(2) assms(6) by simp
  define b where "b = smooth_cursor a1 sample"
  define a2 where "a2 = mouse_control (pinch_click b (landmarks_in back) (frame_width_in back)
      (frame_height_in back) (clock_in back))"
  have s2: "process_video_frame a1 (frame_width_in back) (frame_height_in back)
      (landmarks_in back) (clock_in back) = Inr a2"
    unfolding a2_def b_def sample1 [symmetric]
    using c1(1) r1 assms(5) by (rule frame_with_fingertip)
  have t2: "tracking_of a2 = tracking_of b"
    by (simp add: a2_def tracking_mouse_control tracking_pinch_click)
  have one: "deque_append (raw_target_buffer_size a) [] v = [v]" for v :: real
    using assms(3) by (simp add: deque_append_def)
  have hb: "raw_target_history_x b = [fst sample]" "raw_target_history_y b = [snd sample]"
    "prev_cursor_x b = prev_cursor_x a0 * (1 - smoothing_factor a) + fst sample * smoothing_factor a"
    "prev_cursor_y b = prev_cursor_y a0 * (1 - smoothing_factor a) + snd sample * smoothing_factor a"
    by (simp_all add: b_def smooth_cursor_def Let_def f1 c1 one)
  have h2: "raw_target_history_x a2 = [fst sample]" "raw_target_history_y a2 = [snd sample]"
    "prev_cursor_x a2 = prev_cursor_x a0 * (1 - smoothing_factor a) + fst sample * smoothing_factor a"
    "prev_cursor_y a2 = prev_cursor_y a0 * (1 - smoothing_factor a) + snd sample * smoothing_factor a"
    using t2 hb by (simp_all add: tracking_of_def)
  have run1: "run_frames a (earlier @ [lost]) = Inr a1"
    by (simp add: run_frames_append a0 s1)
  have run2: "run_frames a (earlier @ [lost, back]) = Inr a2"
    by (simp add: run_frames_append a0 s1 s2)
  have m: "sum_list (raw_target_history_x a2) / of_nat (length (raw_target_history_x a2)) = fst sample"
    "sum_list (raw_target_history_y a2) / of_nat (length (raw_target_history_y a2)) = snd sample"
    by (simp_all add: h2)
  show ?thesis
    using a0(1) run1 run2 f1(2-5) h2 m by blast
qed

lemma index_tip_reaching_hand:
  "get_finger_tip_coordinates (Some reaching_hand) 640 480 INDEX_FINGER_TIP = Some (576, 240)"
  by (simp add: get_finger_tip_coordinates_def reaching_hand_def INDEX_FINGER_TIP_def py_int_def)

lemma default_region:
  "effective_active_region default_app = Inr (4 / 15, 11 / 15, 4 / 15, 11 / 15)"
  by (simp add: default_app_def effective_active_region_def np_clip_def Let_def)

lemma reaching_sample:
  "raw_target_screen default_app (pixel_bounds (4 / 15, 11 / 15, 4 / 15, 11 / 15) 640 480) (576, 240)
   = (1920, 540)"
  by (simp add: raw_target_screen_def pixel_bounds_def py_int_def np_clip_def np_interp_def
      default_app_def Let_def)

theorem history_restarts_after_lost_hand_witness:
  "map_sum id (\<lambda>a. (raw_target_history_x a, raw_target_history_y a))
     (run_frames default_app
        ([frame_at (Some open_hand) 10, frame_at (Some open_hand) (81 / 8)]
         @ [frame_at None (41 / 4), frame_at (Some reaching_hand) (83 / 8)]))
   = Inr ([1920], [540])"
proof -
  have c: "is_control_active default_app" "0 < raw_target_buffer_size default_app"
    by (simp_all add: default_app_def)
  have l: "landmarks_in (frame_at None (41 / 4)) = None"
    by (simp add: frame_at_def)
  have t: "get_finger_tip_coordinates (landmarks_in (frame_at (Some reaching_hand) (83 / 8)))
      (frame_width_in (frame_at (Some reaching_hand) (83 / 8)))
      (frame_height_in (frame_at (Some reaching_hand) (83 / 8))) INDEX_FINGER_TIP = Some (576, 240)"
    by (simp add: frame_at_def index_tip_reaching_hand)
  have s: "(1920, 540) = raw_target_screen default_app
      (pixel_bounds (4 / 15, 11 / 15, 4 / 15, 11 / 15)
         (frame_width_in (frame_at (Some reaching_hand) (83 / 8)))
         (frame_height_in (frame_at (Some reaching_hand) (83 / 8)))) (576, 240)"
    by (simp add: frame_at_def reaching_sample)
  obtain a2 where "run_frames default_app
        ([frame_at (Some open_hand) 10, frame_at (Some open_hand) (81 / 8)]
         @ [frame_at None (41 / 4), frame_at (Some reaching_hand) (83 / 8)]) = Inr a2"
    "raw_target_history_x a2 = [fst (1920 :: real, 540 :: real)]"
    "raw_target_history_y a2 = [snd (1920 :: real, 540 :: real)]"
    using history_restarts_after_lost_hand [OF c(1) default_region c(2) l t s,
        of "[frame_at (Some open_hand) 10, frame_at (Some open_hand) (81 / 8)]"]
    by blast
  then show ?thesis by simp
qed

end
